theory Spec2Isabelle
  imports Complex_Main "HOL-Library.Word" "HOL-Library.Sublist"
begin

section \<open>JavaScript strings and arrays\<close>

text \<open>
  Strings are byte lists. \<open>startsWith\<close> and \<open>includes\<close> are the methods of
  \<open>String.prototype\<close>; \<open>join_with\<close> is \<open>Array.prototype.join\<close> and \<open>split_on\<close> is
  \<open>String.prototype.split\<close> with a one-character separator.
\<close>

definition startsWith :: "string \<Rightarrow> string \<Rightarrow> bool" where
  "startsWith s p = prefix p s"

definition includes_str :: "string \<Rightarrow> string \<Rightarrow> bool" where
  "includes_str s p = sublist p s"

fun join_with :: "string \<Rightarrow> string list \<Rightarrow> string" where
  "join_with sep [] = []"
| "join_with sep [x] = x"
| "join_with sep (x # y # ys) = x @ sep @ join_with sep (y # ys)"

fun split_on :: "char \<Rightarrow> string \<Rightarrow> string list" where
  "split_on c [] = [[]]"
| "split_on c (x # xs) =
     (if x = c then [] # split_on c xs
      else (case split_on c xs of [] \<Rightarrow> [[x]] | w # ws \<Rightarrow> (x # w) # ws))"

definition truthy :: "string option \<Rightarrow> bool" where
  \<comment> \<open>an optional string in a condition: \<open>undefined\<close> and the empty string are falsy\<close>
  "truthy v = (case v of None \<Rightarrow> False | Some s \<Rightarrow> s \<noteq> [])"

section \<open>Node's \<open>path\<close> module (POSIX)\<close>

text \<open>
  \<open>normalizeSegs\<close> is \<open>normalizeString\<close> of Node's \<open>path\<close> module read segment by
  segment: empty segments and \<open>.\<close> are dropped, \<open>..\<close> removes the segment before it,
  and is kept only above the start of a relative path. The second argument is the stack of
  segments kept so far, last one first.
\<close>

fun normalizeSegs :: "bool \<Rightarrow> string list \<Rightarrow> string list \<Rightarrow> string list" where
  "normalizeSegs allowAboveRoot acc [] = rev acc"
| "normalizeSegs allowAboveRoot acc (s # ss) =
     (if s = [] \<or> s = ''.'' then normalizeSegs allowAboveRoot acc ss
      else if s = ''..'' then
        (case acc of
           [] \<Rightarrow> normalizeSegs allowAboveRoot (if allowAboveRoot then [''..''] else []) ss
         | a # as \<Rightarrow>
             if a = ''..''
             then normalizeSegs allowAboveRoot (if allowAboveRoot then ''..'' # acc else acc) ss
             else normalizeSegs allowAboveRoot as ss)
      else normalizeSegs allowAboveRoot (s # acc) ss)"

definition normalizeString :: "string \<Rightarrow> bool \<Rightarrow> string" where
  "normalizeString p allowAboveRoot =
     join_with ''/'' (normalizeSegs allowAboveRoot [] (split_on CHR ''/'' p))"

definition resolve :: "string \<Rightarrow> string \<Rightarrow> string" where
  \<comment> \<open>\<open>path.resolve(p)\<close> in a process whose working directory is \<open>cwd\<close>\<close>
  "resolve cwd p =
     (let (resolvedPath, resolvedAbsolute) =
            (if p = [] then ([], False) else (p @ ''/'', hd p = CHR ''/''));
          (resolvedPath, resolvedAbsolute) =
            (if resolvedAbsolute \<or> cwd = [] then (resolvedPath, resolvedAbsolute)
             else (cwd @ ''/'' @ resolvedPath, hd cwd = CHR ''/''));
          resolvedPath = normalizeString resolvedPath (\<not> resolvedAbsolute)
      in if resolvedAbsolute then ''/'' @ resolvedPath
         else if resolvedPath \<noteq> [] then resolvedPath else ''.'')"

definition normalize :: "string \<Rightarrow> string" where
  "normalize p =
     (if p = [] then ''.''
      else let isAbsolute = (hd p = CHR ''/'');
               trailingSeparator = (last p = CHR ''/'');
               q = normalizeString p (\<not> isAbsolute)
           in if q = [] then (if isAbsolute then ''/'' else if trailingSeparator then ''./'' else ''.'')
              else let q = (if trailingSeparator then q @ ''/'' else q)
                   in if isAbsolute then ''/'' @ q else q)"

definition join :: "string list \<Rightarrow> string" where
  \<comment> \<open>\<open>path.join(...args)\<close>\<close>
  "join args =
     (let path = filter (\<lambda>arg. arg \<noteq> []) args
      in if path = [] then ''.'' else normalize (join_with ''/'' path))"

text \<open>
  \<open>path.relative\<close>, character by character as Node has it. \<open>commonScan\<close> is its first loop:
  it walks both paths after their leading slash while they agree, and returns the index where
  it stopped with the index of the last separator seen.
\<close>

fun commonScan :: "string \<Rightarrow> string \<Rightarrow> nat \<Rightarrow> int \<Rightarrow> nat \<times> int" where
  "commonScan (f # fs) (t # ts) i lastCommonSep =
     (if f \<noteq> t then (i, lastCommonSep)
      else commonScan fs ts (Suc i) (if f = CHR ''/'' then int i else lastCommonSep))"
| "commonScan [] ts i lastCommonSep = (i, lastCommonSep)"
| "commonScan fs [] i lastCommonSep = (i, lastCommonSep)"

definition relativeOut :: "string \<Rightarrow> int \<Rightarrow> string \<Rightarrow> string" where
  \<comment> \<open>the second loop of \<open>path.relative\<close> and its final return\<close>
  "relativeOut from lastCommonSep to =
     (let fromEnd = length from;
          ups = filter (\<lambda>i. i = fromEnd \<or> from ! i = CHR ''/'')
                  [nat (1 + lastCommonSep + 1) ..< Suc fromEnd];
          out = join_with ''/'' (map (\<lambda>i. ''..'') ups)
      in out @ drop (nat (1 + lastCommonSep)) to)"

definition relative :: "string \<Rightarrow> string \<Rightarrow> string \<Rightarrow> string" where
  \<comment> \<open>\<open>path.relative(from, to)\<close> in a process whose working directory is \<open>cwd\<close>\<close>
  "relative cwd from0 to0 =
     (if from0 = to0 then []
      else let from = resolve cwd from0; to = resolve cwd to0
           in if from = to then []
              else let fromLen = length from - 1; toLen = length to - 1;
                       len = (if fromLen < toLen then fromLen else toLen);
                       (i, lastCommonSep) =
                          commonScan (take len (drop 1 from)) (take len (drop 1 to)) 0 (- 1)
                   in if i = len then
                        (if toLen > len then
                           (if to ! (1 + i) = CHR ''/'' then drop (1 + i + 1) to
                            else if i = 0 then drop (1 + i) to
                            else relativeOut from lastCommonSep to)
                         else if fromLen > len then
                           (if from ! (1 + i) = CHR ''/'' then relativeOut from (int i) to
                            else if i = 0 then relativeOut from 0 to
                            else relativeOut from lastCommonSep to)
                         else relativeOut from lastCommonSep to)
                      else relativeOut from lastCommonSep to)"

section \<open>Numbers as text\<close>

text \<open>
  A file size is a non-negative integer below \<open>2 ^ 53\<close>, so the quotients by 4, 1024 and
  1048576 (powers of two) are exact as doubles and \<open>Math.ceil\<close> and \<open>toFixed\<close> work on the
  exact value. \<open>toFixed2 a b\<close> is \<open>(a / b).toFixed(2)\<close>: the nearest number of hundredths,
  the larger one at a tie. \<open>Math_ceil_div a b\<close> is \<open>Math.ceil(a / b)\<close>.
\<close>

definition digitChar :: "nat \<Rightarrow> char" where
  "digitChar n = ''0123456789'' ! n"

function showNat :: "nat \<Rightarrow> string" where
  "showNat n = (if n < 10 then [digitChar n] else showNat (n div 10) @ [digitChar (n mod 10)])"
  by pat_completeness auto
termination
  by (relation "measure id") auto

definition toFixed2 :: "nat \<Rightarrow> nat \<Rightarrow> string" where
  "toFixed2 a b =
     (let n = (200 * a + b) div (2 * b)
      in showNat (n div 100) @ ''.'' @ [digitChar (n div 10 mod 10), digitChar (n mod 10)])"

definition Math_ceil_div :: "nat \<Rightarrow> nat \<Rightarrow> nat" where
  "Math_ceil_div a b = (a + (b - 1)) div b"

function toLocaleString_enUS :: "nat \<Rightarrow> string" where
  "toLocaleString_enUS n =
     (if n < 1000 then showNat n
      else toLocaleString_enUS (n div 1000) @ '','' @
           [digitChar (n div 100 mod 10), digitChar (n div 10 mod 10), digitChar (n mod 10)])"
  by pat_completeness auto
termination
  by (relation "measure id") auto

definition hexDigit :: "nat \<Rightarrow> char" where
  "hexDigit n = ''0123456789abcdef'' ! n"

definition toHex :: "8 word list \<Rightarrow> string" where
  \<comment> \<open>\<open>Buffer.prototype.toString('hex')\<close>\<close>
  "toHex bs = concat (map (\<lambda>b. [hexDigit (unat b div 16), hexDigit (unat b mod 16)]) bs)"

section \<open>Requests, arguments and results\<close>

datatype json = JNull | JBool bool | JNum int | JStr string
  | JArr "json list" | JObj "(string \<times> json) list"

datatype style = xml | markdown | plain

fun style_str :: "style \<Rightarrow> string" where
  "style_str xml = ''xml''"
| "style_str markdown = ''markdown''"
| "style_str plain = ''plain''"

record RepomixArgs =
  path :: "string option"
  style :: "style option"
  compress :: "bool option"
  include_pattern :: "string option"
  ignore :: "string option"
  remote :: "string option"

text \<open>
  \<open>RepomixArgsSchema.parse\<close>: a \<open>z.object\<close> of six optional fields. A field that is absent
  parses to \<open>None\<close>; a field of the wrong type is an issue; keys the schema does not name are
  dropped. The outer \<open>None\<close> of a field parser marks the issue.
\<close>

definition optionalString :: "(string \<times> json) list \<Rightarrow> string \<Rightarrow> string option option" where
  "optionalString obj k =
     (case map_of obj k of None \<Rightarrow> Some None | Some (JStr s) \<Rightarrow> Some (Some s) | Some _ \<Rightarrow> None)"

definition optionalBoolean :: "(string \<times> json) list \<Rightarrow> string \<Rightarrow> bool option option" where
  "optionalBoolean obj k =
     (case map_of obj k of None \<Rightarrow> Some None | Some (JBool b) \<Rightarrow> Some (Some b) | Some _ \<Rightarrow> None)"

definition optionalStyle :: "(string \<times> json) list \<Rightarrow> string \<Rightarrow> style option option" where
  "optionalStyle obj k =
     (case map_of obj k of
        None \<Rightarrow> Some None
      | Some (JStr s) \<Rightarrow>
          (if s = ''xml'' then Some (Some xml)
           else if s = ''markdown'' then Some (Some markdown)
           else if s = ''plain'' then Some (Some plain)
           else None)
      | Some _ \<Rightarrow> None)"

datatype exn = Error string

fun message :: "exn \<Rightarrow> string" where
  "message (Error m) = m"

datatype rejection = Thrown exn | ZodError "string list"

definition RepomixArgsSchema_parse :: "json option \<Rightarrow> rejection + RepomixArgs" where
  "RepomixArgsSchema_parse input =
     (case input of
        Some (JObj obj) \<Rightarrow>
          (let p = optionalString obj ''path''; s = optionalStyle obj ''style'';
               c = optionalBoolean obj ''compress''; i = optionalString obj ''include'';
               g = optionalString obj ''ignore''; r = optionalString obj ''remote'';
               issues = (if p = None then [''path''] else []) @
                        (if s = None then [''style''] else []) @
                        (if c = None then [''compress''] else []) @
                        (if i = None then [''include''] else []) @
                        (if g = None then [''ignore''] else []) @
                        (if r = None then [''remote''] else [])
           in if issues = []
              then Inr \<lparr>path = the p, style = the s, compress = the c,
                        include_pattern = the i, ignore = the g, remote = the r\<rparr>
              else Inl (ZodError issues))
      | _ \<Rightarrow> Inl (ZodError [[]]))"

record call_request =
  name :: string
  arguments :: "json option"

datatype content_block = TextContent string

record tool_result =
  content :: "content_block list"
  isError :: "bool option"

section \<open>The process and its surroundings\<close>

text \<open>
  The handler acts on a file system (a map from paths to contents) and leaves a trace of the
  system calls it made, in order. What the operating system, the external tool and the locale
  decide is a field of \<open>env\<close>: the theorems hold for every choice of them.
\<close>

datatype sys_call = Realpath string | Exec string | Stat string | ReadFile string | Rm string

record world =
  files :: "string \<rightharpoonup> string"
  trace :: "sys_call list"

record exec_output =
  stdout :: string
  stderr :: string

record env =
  cwd :: string
  tmpdir :: string
  randomBytes :: "nat \<Rightarrow> 8 word list"
  realpath_result :: "string \<Rightarrow> exn + string"
  exec_result :: "string \<Rightarrow> (string \<rightharpoonup> string) \<Rightarrow> (exn + exec_output) \<times> (string \<rightharpoonup> string)"
  stat_failure :: "string \<Rightarrow> exn option"
  readFile_failure :: "string \<Rightarrow> exn option"
  rm_failure :: "world \<Rightarrow> string \<Rightarrow> exn option"
  toLocaleString :: "nat \<Rightarrow> string"

record server =
  allowedDirectory :: string

definition RepomixMCPServer :: "env \<Rightarrow> server" where
  \<comment> \<open>the constructor: the boundary is the working directory at start\<close>
  "RepomixMCPServer e = \<lparr>allowedDirectory = cwd e\<rparr>"

definition called :: "sys_call \<Rightarrow> world \<Rightarrow> world" where
  "called c w = w\<lparr>trace := trace w @ [c]\<rparr>"

definition realpath :: "env \<Rightarrow> string \<Rightarrow> world \<Rightarrow> (exn + string) \<times> world" where
  "realpath e p w = (realpath_result e p, called (Realpath p) w)"

definition execAsync :: "env \<Rightarrow> string \<Rightarrow> world \<Rightarrow> (exn + exec_output) \<times> world" where
  "execAsync e command w =
     (let (r, fs) = exec_result e command (files w)
      in (r, (called (Exec command) w)\<lparr>files := fs\<rparr>))"

definition stat :: "env \<Rightarrow> string \<Rightarrow> world \<Rightarrow> (exn + nat) \<times> world" where
  \<comment> \<open>the \<open>size\<close> of \<open>fs.stat\<close>\<close>
  "stat e p w =
     (case stat_failure e p of
        Some err \<Rightarrow> (Inl err, called (Stat p) w)
      | None \<Rightarrow>
          (case files w p of
             None \<Rightarrow> (Inl (Error (''ENOENT: no such file or directory, stat ''
                                  @ [CHR 0x27] @ p @ [CHR 0x27])), called (Stat p) w)
           | Some c \<Rightarrow> (Inr (length c), called (Stat p) w)))"

definition readFile :: "env \<Rightarrow> string \<Rightarrow> world \<Rightarrow> (exn + string) \<times> world" where
  \<comment> \<open>\<open>readFile(p, 'utf-8')\<close>: the bytes of the file as they are; decoding is not modelled\<close>
  "readFile e p w =
     (case readFile_failure e p of
        Some err \<Rightarrow> (Inl err, called (ReadFile p) w)
      | None \<Rightarrow>
          (case files w p of
             None \<Rightarrow> (Inl (Error (''ENOENT: no such file or directory, open ''
                                  @ [CHR 0x27] @ p @ [CHR 0x27])), called (ReadFile p) w)
           | Some c \<Rightarrow> (Inr c, called (ReadFile p) w)))"

definition rm :: "env \<Rightarrow> string \<Rightarrow> world \<Rightarrow> (exn + unit) \<times> world" where
  \<comment> \<open>\<open>rm(p, { force: true })\<close>: a missing file is no error\<close>
  "rm e p w =
     (case rm_failure e w p of
        Some err \<Rightarrow> (Inl err, called (Rm p) w)
      | None \<Rightarrow> (Inr (), (called (Rm p) w)\<lparr>files := (files w)(p := None)\<rparr>))"

section \<open>The server\<close>

record tool_decl =
  tool_name :: string
  tool_properties :: "string list"

definition listTools :: "tool_decl list" where
  \<comment> \<open>the \<open>ListToolsRequestSchema\<close> handler: names and the keys of each input schema\<close>
  "listTools =
     [\<lparr>tool_name = ''repomix'',
       tool_properties = [''path'', ''style'', ''compress'', ''include'', ''ignore'', ''remote'']\<rparr>,
      \<lparr>tool_name = ''repomix-estimate'',
       tool_properties = [''path'', ''style'', ''compress'', ''include'', ''ignore'', ''remote'']\<rparr>]"

definition isPathAllowed_try :: "server \<Rightarrow> env \<Rightarrow> string \<Rightarrow> world \<Rightarrow> (exn + bool) \<times> world" where
  \<comment> \<open>the \<open>try\<close> block of \<open>isPathAllowed\<close>\<close>
  "isPathAllowed_try srv e targetPath w =
     (case realpath e (resolve (cwd e) targetPath) w of
        (Inl err, w1) \<Rightarrow> (Inl err, w1)
      | (Inr absolutePath, w1) \<Rightarrow>
          (case realpath e (allowedDirectory srv) w1 of
             (Inl err, w2) \<Rightarrow> (Inl err, w2)
           | (Inr allowedPath, w2) \<Rightarrow>
               (let relativePath = relative (cwd e) allowedPath absolutePath
                in (Inr (\<not> startsWith relativePath ''..'' \<and> \<not> startsWith relativePath ''/''), w2))))"

definition isPathAllowed :: "server \<Rightarrow> env \<Rightarrow> string \<Rightarrow> world \<Rightarrow> (exn + bool) \<times> world" where
  "isPathAllowed srv e targetPath w =
     (case isPathAllowed_try srv e targetPath w of
        (Inl err, w1) \<Rightarrow> (Inr False, w1)
      | (Inr b, w1) \<Rightarrow> (Inr b, w1))"

definition commandParts :: "RepomixArgs \<Rightarrow> string \<Rightarrow> string list" where
  "commandParts args tempFilePath =
     [''npx'', ''repomix'']
     @ (case path args of Some p \<Rightarrow> if p \<noteq> [] then [p] else [] | None \<Rightarrow> [])
     @ (case style args of Some s \<Rightarrow> [''--style'', style_str s] | None \<Rightarrow> [])
     @ (if compress args = Some True then [''--compress''] else [])
     @ (case include_pattern args of
          Some i \<Rightarrow> if i \<noteq> [] then [''--include'', [CHR 0x22] @ i @ [CHR 0x22]] else []
        | None \<Rightarrow> [])
     @ (case ignore args of
          Some g \<Rightarrow> if g \<noteq> [] then [''--ignore'', [CHR 0x22] @ g @ [CHR 0x22]] else []
        | None \<Rightarrow> [])
     @ (case remote args of Some r \<Rightarrow> if r \<noteq> [] then [''--remote'', r] else [] | None \<Rightarrow> [])
     @ [''--output'', tempFilePath]"

definition tempFileName :: "env \<Rightarrow> string" where
  "tempFileName e = ''repomix-'' @ toHex (randomBytes e 8) @ ''.txt''"

definition tempFilePath :: "env \<Rightarrow> string" where
  "tempFilePath e = join [tmpdir e, tempFileName e]"

definition command :: "env \<Rightarrow> RepomixArgs \<Rightarrow> string" where
  "command e args = join_with '' '' (commandParts args (tempFilePath e))"

definition estimateText :: "env \<Rightarrow> RepomixArgs \<Rightarrow> nat \<Rightarrow> string" where
  "estimateText e args sizeInBytes =
     (let sizeInKB = toFixed2 sizeInBytes 1024;
          sizeInMB = toFixed2 sizeInBytes (1024 * 1024);
          estimatedTokens = Math_ceil_div sizeInBytes 4
      in ''Repomix output size estimate:\<newline>- Size: '' @ sizeInKB @ '' KB ('' @ sizeInMB
         @ '' MB)\<newline>- Estimated tokens: ~'' @ toLocaleString e estimatedTokens
         @ ''\<newline>- Compression: '' @ (if compress args = Some True then ''enabled'' else ''disabled'')
         @ ''\<newline>\<newline>Use the repomix tool with these same parameters to retrieve the actual content.'')"

definition withStderr :: "string \<Rightarrow> string \<Rightarrow> string" where
  \<comment> \<open>the template tail \<open>stderr ? label + stderr : ''\<close>\<close>
  "withStderr label err = (if err \<noteq> [] then label @ err else [])"

definition cleanup :: "env \<Rightarrow> string \<Rightarrow> world \<Rightarrow> world" where
  \<comment> \<open>\<open>try { await rm(p, { force: true }) } catch { }\<close>: the outcome of \<open>rm\<close> is dropped\<close>
  "cleanup e p w = snd (rm e p w)"

definition outerCatch :: "env \<Rightarrow> string \<Rightarrow> exn \<Rightarrow> string \<Rightarrow> world \<Rightarrow> (rejection + tool_result) \<times> world" where
  \<comment> \<open>the \<open>catch\<close> of the outer \<open>try\<close>, with the value of the variable \<open>stderr\<close> at that moment\<close>
  "outerCatch e tmp err errOut w =
     (let w1 = cleanup e tmp w
      in (Inr \<lparr>content = [TextContent (''Error executing repomix: '' @ message err
                                         @ withStderr ''\<newline>Stderr: '' errOut)],
               isError = Some True\<rparr>, w1))"

definition executeAndRetrieve :: "env \<Rightarrow> RepomixArgs \<Rightarrow> bool \<Rightarrow> world \<Rightarrow> (rejection + tool_result) \<times> world" where
  \<comment> \<open>from \<open>const commandParts\<close> to the end of the handler\<close>
  "executeAndRetrieve e args isEstimate w =
     (let tmp = tempFilePath e
      in case execAsync e (command e args) w of
           (Inl err, w1) \<Rightarrow> outerCatch e tmp err [] w1
         | (Inr result, w1) \<Rightarrow>
             (let errOut = stderr result
              in if isEstimate then
                   (case stat e tmp w1 of
                      (Inr sizeInBytes, w2) \<Rightarrow>
                        (let w3 = cleanup e tmp w2
                         in (Inr \<lparr>content = [TextContent (estimateText e args sizeInBytes)],
                                  isError = None\<rparr>, w3))
                    | (Inl err, w2) \<Rightarrow>
                        (let w3 = cleanup e tmp w2
                         in outerCatch e tmp
                              (Error (''Failed to estimate size: '' @ message err
                                      @ withStderr ''\<newline>Repomix stderr: '' errOut))
                              errOut w3))
                 else
                   (case readFile e tmp w1 of
                      (Inl readError, w2) \<Rightarrow>
                        outerCatch e tmp
                          (Error (''Failed to read output file: '' @ message readError
                                  @ withStderr ''\<newline>Repomix stderr: '' errOut))
                          errOut w2
                    | (Inr fileContents, w2) \<Rightarrow>
                        (let w3 = cleanup e tmp w2
                         in (Inr \<lparr>content = [TextContent fileContents], isError = None\<rparr>, w3)))))"

definition accessDenied :: "server \<Rightarrow> string \<Rightarrow> tool_result" where
  "accessDenied srv p =
     \<lparr>content = [TextContent (''Access denied: Path '' @ [CHR 0x22] @ p @ [CHR 0x22]
                                @ '' is outside the allowed directory ('' @ allowedDirectory srv @ '')'')],
      isError = Some True\<rparr>"

definition handler :: "server \<Rightarrow> env \<Rightarrow> call_request \<Rightarrow> world \<Rightarrow> (rejection + tool_result) \<times> world" where
  \<comment> \<open>the \<open>CallToolRequestSchema\<close> handler\<close>
  "handler srv e request w =
     (if name request \<noteq> ''repomix'' \<and> name request \<noteq> ''repomix-estimate''
      then (Inl (Thrown (Error (''Unknown tool: '' @ name request))), w)
      else case RepomixArgsSchema_parse (arguments request) of
             Inl z \<Rightarrow> (Inl z, w)
           | Inr args \<Rightarrow>
               (let isEstimate = (name request = ''repomix-estimate'')
                in case path args of
                     None \<Rightarrow> executeAndRetrieve e args isEstimate w
                   | Some p \<Rightarrow>
                       if p \<noteq> [] \<and> \<not> truthy (remote args) then
                         (let targetPath = resolve (cwd e) p
                          in case isPathAllowed srv e targetPath w of
                               (Inl err, w1) \<Rightarrow> (Inl (Thrown err), w1)
                             | (Inr allowed, w1) \<Rightarrow>
                                 if \<not> allowed then (Inr (accessDenied srv p), w1)
                                 else executeAndRetrieve e args isEstimate w1)
                       else executeAndRetrieve e args isEstimate w))"

section \<open>Notions the properties are stated with\<close>

definition new_calls :: "world \<Rightarrow> world \<Rightarrow> sys_call list" where
  \<comment> \<open>the system calls made between two states of the world\<close>
  "new_calls w w' = drop (length (trace w)) (trace w')"

definition beginsWithParentSegment :: "string \<Rightarrow> bool" where
  \<comment> \<open>the first segment of a relative path is the parent directory\<close>
  "beginsWithParentSegment r = (hd (split_on CHR ''/'' r) = ''..'')"

text \<open>
  A sample installation: the server runs in \<open>/home/user/project\<close>, every path exists and is
  its own real path, and the external tool writes an artifact of 5396 bytes.
\<close>

definition example_env :: env where
  "example_env =
     \<lparr>cwd = ''/home/user/project'', tmpdir = ''/tmp'',
      randomBytes = (\<lambda>n. take n [0x1f, 0x8a, 0x03, 0xc4, 0x5d, 0xe6, 0x70, 0x9b]),
      realpath_result = (\<lambda>p. Inr p),
      exec_result = (\<lambda>c fs. (Inr \<lparr>stdout = [], stderr = []\<rparr>,
                               fs(''/tmp/repomix-1f8a03c45de6709b.txt'' \<mapsto> replicate 5396 CHR ''x''))),
      stat_failure = (\<lambda>p. None), readFile_failure = (\<lambda>p. None), rm_failure = (\<lambda>w p. None),
      toLocaleString = toLocaleString_enUS\<rparr>"

definition example_world :: world where
  "example_world = \<lparr>files = Map.empty, trace = []\<rparr>"

definition example_estimate_request :: call_request where
  "example_estimate_request =
     \<lparr>name = ''repomix-estimate'',
      arguments = Some (JObj [(''path'', JStr ''.''), (''compress'', JBool True)])\<rparr>"

definition example_estimate_args :: RepomixArgs where
  "example_estimate_args =
     \<lparr>path = Some ''.'', style = None, compress = Some True, include_pattern = None,
      ignore = None, remote = None\<rparr>"

definition example_denied_request :: call_request where
  "example_denied_request =
     \<lparr>name = ''repomix'', arguments = Some (JObj [(''path'', JStr ''/etc'')])\<rparr>"

definition example_denied_args :: RepomixArgs where
  "example_denied_args =
     \<lparr>path = Some ''/etc'', style = None, compress = None, include_pattern = None,
      ignore = None, remote = None\<rparr>"

definition example_remote_request :: call_request where
  "example_remote_request =
     \<lparr>name = ''repomix'',
      arguments = Some (JObj [(''path'', JStr ''/etc''),
                              (''remote'', JStr ''https://github.com/user/repo'')])\<rparr>"

definition example_remote_args :: RepomixArgs where
  "example_remote_args =
     \<lparr>path = Some ''/etc'', style = None, compress = None, include_pattern = None,
      ignore = None, remote = Some ''https://github.com/user/repo''\<rparr>"

definition example_empty_remote_request :: call_request where
  "example_empty_remote_request =
     \<lparr>name = ''repomix'',
      arguments = Some (JObj [(''path'', JStr ''/etc''), (''remote'', JStr [])])\<rparr>"

definition example_empty_remote_args :: RepomixArgs where
  "example_empty_remote_args =
     \<lparr>path = Some ''/etc'', style = None, compress = None, include_pattern = None,
      ignore = None, remote = Some []\<rparr>"

text \<open>
  The estimate as the specification words it: the token count is the ceiling of a quarter of
  the size, and the kilobyte and megabyte figures are the size over 1024 and over 1048576
  rounded to hundredths, over the reals.
\<close>

definition spec_tokens :: "nat \<Rightarrow> nat" where
  "spec_tokens n = nat \<lceil>real n / 4\<rceil>"

definition spec_hundredths :: "nat \<Rightarrow> nat \<Rightarrow> nat" where
  "spec_hundredths n d = nat (round (100 * (real n / real d)))"

definition show_hundredths :: "nat \<Rightarrow> string" where
  "show_hundredths h =
     showNat (h div 100) @ ''.'' @ [digitChar (h div 10 mod 10), digitChar (h mod 10)]"

definition spec_estimate_text :: "(nat \<Rightarrow> string) \<Rightarrow> nat \<Rightarrow> bool \<Rightarrow> string" where
  "spec_estimate_text locale n compressed =
     ''Repomix output size estimate:\<newline>- Size: '' @ show_hundredths (spec_hundredths n 1024)
     @ '' KB ('' @ show_hundredths (spec_hundredths n 1048576)
     @ '' MB)\<newline>- Estimated tokens: ~'' @ locale (spec_tokens n)
     @ ''\<newline>- Compression: '' @ (if compressed then ''enabled'' else ''disabled'')
     @ ''\<newline>\<newline>Use the repomix tool with these same parameters to retrieve the actual content.''"

definition example_failing_env :: env where
  \<comment> \<open>the external tool exits non-zero with \<open>glob error\<close> on standard error; the message of
      the rejection is the one \<open>child_process.exec\<close> builds\<close>
  "example_failing_env =
     example_env\<lparr>exec_result :=
       (\<lambda>c fs. (Inl (Error (''Command failed: '' @ c @ ''\<newline>'' @ ''glob error'')), fs))\<rparr>"

definition example_pack_request :: call_request where
  "example_pack_request =
     \<lparr>name = ''repomix'', arguments = Some (JObj [(''path'', JStr ''.'')])\<rparr>"

definition example_pack_args :: RepomixArgs where
  "example_pack_args =
     \<lparr>path = Some ''.'', style = None, compress = None, include_pattern = None,
      ignore = None, remote = None\<rparr>"

definition cleanSegment :: "string \<Rightarrow> bool" where
  \<comment> \<open>the name of a file or directory: not empty, not \<open>.\<close> or \<open>..\<close>, and without a slash\<close>
  "cleanSegment s = (s \<noteq> [] \<and> s \<noteq> ''.'' \<and> s \<noteq> ''..'' \<and> CHR ''/'' \<notin> set s)"

definition absPath :: "string list \<Rightarrow> string" where
  \<comment> \<open>the absolute path with the given segments\<close>
  "absPath segs = ''/'' @ join_with ''/'' segs"

text \<open>
  How \<open>/bin/sh\<close>, which \<open>child_process.exec\<close> runs the command line with, splits a line
  into words, as far as blanks, quotes and backslashes go. Expansions, operators and comments
  are left out, so \<open>sh_words\<close> speaks for the shell on lines without them: \<open>sh_plain\<close> marks
  the characters that mean only themselves outside quotes, \<open>dq_safe\<close> those that mean only
  themselves between double quotes. The second argument of \<open>sh_scan\<close> is the word being read,
  if any.
\<close>

datatype sh_mode = Unquoted | DQuoted | SQuoted

definition sh_word :: "string option \<Rightarrow> string" where
  "sh_word cur = (case cur of None \<Rightarrow> [] | Some w \<Rightarrow> w)"

fun sh_scan :: "sh_mode \<Rightarrow> string option \<Rightarrow> string \<Rightarrow> string list" where
  "sh_scan m cur [] = (case cur of None \<Rightarrow> [] | Some w \<Rightarrow> [w])"
| "sh_scan Unquoted cur (c # cs) =
     (if c = CHR '' '' \<or> c = CHR 0x09 then
        (case cur of None \<Rightarrow> sh_scan Unquoted None cs | Some w \<Rightarrow> w # sh_scan Unquoted None cs)
      else if c = CHR 0x22 then sh_scan DQuoted (Some (sh_word cur)) cs
      else if c = CHR 0x27 then sh_scan SQuoted (Some (sh_word cur)) cs
      else if c = CHR 0x5C then
        (case cs of
           [] \<Rightarrow> sh_scan Unquoted (Some (sh_word cur)) []
         | d # ds \<Rightarrow> sh_scan Unquoted (Some (sh_word cur @ [d])) ds)
      else sh_scan Unquoted (Some (sh_word cur @ [c])) cs)"
| "sh_scan DQuoted cur (c # cs) =
     (if c = CHR 0x22 then sh_scan Unquoted cur cs
      else if c = CHR 0x5C then
        (case cs of
           [] \<Rightarrow> sh_scan DQuoted (Some (sh_word cur @ [c])) []
         | d # ds \<Rightarrow>
             if d = CHR 0x22 \<or> d = CHR 0x5C \<or> d = CHR ''$'' \<or> d = CHR 0x60
             then sh_scan DQuoted (Some (sh_word cur @ [d])) ds
             else sh_scan DQuoted (Some (sh_word cur @ [c, d])) ds)
      else sh_scan DQuoted (Some (sh_word cur @ [c])) cs)"
| "sh_scan SQuoted cur (c # cs) =
     (if c = CHR 0x27 then sh_scan Unquoted cur cs
      else sh_scan SQuoted (Some (sh_word cur @ [c])) cs)"

definition sh_words :: "string \<Rightarrow> string list" where
  "sh_words line = sh_scan Unquoted None line"





datatype part = Bare string | Quoted string

fun render :: "part \<Rightarrow> string" where
  "render (Bare p) = p"
| "render (Quoted v) = [CHR 0x22] @ v @ [CHR 0x22]"



definition parts_of :: "RepomixArgs \<Rightarrow> string \<Rightarrow> part list" where
  \<comment> \<open>the parts of the command, each marked as passed bare or between double quotes\<close>
  "parts_of args tmp =
     [Bare ''npx'', Bare ''repomix'']
     @ (case path args of Some p \<Rightarrow> if p \<noteq> [] then [Bare p] else [] | None \<Rightarrow> [])
     @ (case style args of Some s \<Rightarrow> [Bare ''--style'', Bare (style_str s)] | None \<Rightarrow> [])
     @ (if compress args = Some True then [Bare ''--compress''] else [])
     @ (case include_pattern args of
          Some i \<Rightarrow> if i \<noteq> [] then [Bare ''--include'', Quoted i] else [] | None \<Rightarrow> [])
     @ (case ignore args of
          Some g \<Rightarrow> if g \<noteq> [] then [Bare ''--ignore'', Quoted g] else [] | None \<Rightarrow> [])
     @ (case remote args of
          Some r \<Rightarrow> if r \<noteq> [] then [Bare ''--remote'', Bare r] else [] | None \<Rightarrow> [])
     @ [Bare ''--output'', Bare tmp]"




definition example_space_request :: call_request where
  "example_space_request =
     \<lparr>name = ''repomix'', arguments = Some (JObj [(''path'', JStr ''my dir'')])\<rparr>"

definition example_space_args :: RepomixArgs where
  "example_space_args =
     \<lparr>path = Some ''my dir'', style = None, compress = None, include_pattern = None,
      ignore = None, remote = None\<rparr>"

text \<open>The same digits grouped the German way, for a host whose locale is not US English.\<close>

function toLocaleString_deDE :: "nat \<Rightarrow> string" where
  "toLocaleString_deDE n =
     (if n < 1000 then showNat n
      else toLocaleString_deDE (n div 1000) @ ''.'' @
           [digitChar (n div 100 mod 10), digitChar (n div 10 mod 10), digitChar (n mod 10)])"
  by pat_completeness auto
termination
  by (relation "measure id") auto

definition example_german_env :: env where
  "example_german_env = example_env\<lparr>toLocaleString := toLocaleString_deDE\<rparr>"



section \<open>The access guard\<close>

lemma split_on_hd_prefix: "prefix (hd (split_on c s)) s"
  by (induction s) (auto split: list.splits)

lemma parent_segment_startsWith: "beginsWithParentSegment r \<Longrightarrow> startsWith r ''..''"
  unfolding beginsWithParentSegment_def startsWith_def
  using split_on_hd_prefix [of "CHR ''/''" r] by simp

lemma isPathAllowed_Inr: "\<exists>b. fst (isPathAllowed srv e p w) = Inr b"
  by (auto simp add: isPathAllowed_def split: prod.splits sum.splits)

lemma isPathAllowed_trace:
  "trace (snd (isPathAllowed srv e p w)) = trace w @ [Realpath (resolve (cwd e) p)]
   \<or> trace (snd (isPathAllowed srv e p w)) =
       trace w @ [Realpath (resolve (cwd e) p), Realpath (allowedDirectory srv)]"
  by (auto simp add: isPathAllowed_def isPathAllowed_try_def realpath_def called_def Let_def
           split: prod.splits sum.splits)

lemma isPathAllowed_files: "files (snd (isPathAllowed srv e p w)) = files w"
  by (auto simp add: isPathAllowed_def isPathAllowed_try_def realpath_def called_def Let_def
           split: prod.splits sum.splits)

text \<open>
  C1. \<open>isPathAllowed\<close> answers true only when both the candidate and the boundary resolve
  and the relative path from the resolved boundary to the resolved candidate neither begins
  with a parent-directory segment nor begins with a slash; when either resolution fails it
  answers false; and it never rejects.
\<close>

theorem isPathAllowed_sound:
  "(fst (isPathAllowed srv e p w) = Inr True \<longrightarrow>
      (\<exists>absolutePath allowedPath.
         realpath_result e (resolve (cwd e) p) = Inr absolutePath \<and>
         realpath_result e (allowedDirectory srv) = Inr allowedPath \<and>
         \<not> beginsWithParentSegment (relative (cwd e) allowedPath absolutePath) \<and>
         \<not> startsWith (relative (cwd e) allowedPath absolutePath) ''/''))
   \<and> ((\<exists>err. realpath_result e (resolve (cwd e) p) = Inl err) \<or>
        (\<exists>err. realpath_result e (allowedDirectory srv) = Inl err)
        \<longrightarrow> fst (isPathAllowed srv e p w) = Inr False)
   \<and> (\<exists>b. fst (isPathAllowed srv e p w) = Inr b)"
proof (intro conjI impI)
  assume ok: "fst (isPathAllowed srv e p w) = Inr True"
  then obtain a where a: "realpath_result e (resolve (cwd e) p) = Inr a"
    by (cases "realpath_result e (resolve (cwd e) p)")
       (auto simp add: isPathAllowed_def isPathAllowed_try_def realpath_def)
  with ok obtain b where b: "realpath_result e (allowedDirectory srv) = Inr b"
    by (cases "realpath_result e (allowedDirectory srv)")
       (auto simp add: isPathAllowed_def isPathAllowed_try_def realpath_def)
  from ok a b have "\<not> startsWith (relative (cwd e) b a) ''..''"
    and "\<not> startsWith (relative (cwd e) b a) ''/''"
    by (auto simp add: isPathAllowed_def isPathAllowed_try_def realpath_def Let_def)
  with a b parent_segment_startsWith
  show "\<exists>absolutePath allowedPath.
         realpath_result e (resolve (cwd e) p) = Inr absolutePath \<and>
         realpath_result e (allowedDirectory srv) = Inr allowedPath \<and>
         \<not> beginsWithParentSegment (relative (cwd e) allowedPath absolutePath) \<and>
         \<not> startsWith (relative (cwd e) allowedPath absolutePath) ''/''"
    by blast
next
  assume "(\<exists>err. realpath_result e (resolve (cwd e) p) = Inl err) \<or>
        (\<exists>err. realpath_result e (allowedDirectory srv) = Inl err)"
  then show "fst (isPathAllowed srv e p w) = Inr False"
    by (auto simp add: isPathAllowed_def isPathAllowed_try_def realpath_def split: sum.splits)
next
  show "\<exists>b. fst (isPathAllowed srv e p w) = Inr b" by (rule isPathAllowed_Inr)
qed

lemma example_resolve_src: "resolve ''/home/user/project'' ''src'' = ''/home/user/project/src''"
  by (simp add: resolve_def normalizeString_def)

lemma example_relative_src:
  "relative ''/home/user/project'' ''/home/user/project'' ''/home/user/project/src'' = ''src''"
  by (simp add: relative_def resolve_def normalizeString_def Let_def)

theorem isPathAllowed_sound_witness:
  "fst (isPathAllowed (RepomixMCPServer example_env) example_env ''src'' example_world) = Inr True
   \<and> \<not> beginsWithParentSegment
         (relative ''/home/user/project'' ''/home/user/project'' ''/home/user/project/src'')
   \<and> realpath_result (example_env\<lparr>realpath_result := \<lambda>p. Inl (Error ''ENOENT'')\<rparr>)
        (resolve ''/home/user/project'' ''missing'') = Inl (Error ''ENOENT'')
   \<and> fst (isPathAllowed (RepomixMCPServer example_env)
             (example_env\<lparr>realpath_result := \<lambda>p. Inl (Error ''ENOENT'')\<rparr>) ''missing'' example_world)
       = Inr False"
proof -
  let ?srv = "RepomixMCPServer example_env"
  let ?bad = "example_env\<lparr>realpath_result := \<lambda>p. Inl (Error ''ENOENT'')\<rparr>"
  have yes: "fst (isPathAllowed ?srv example_env ''src'' example_world) = Inr True"
    by (simp add: isPathAllowed_def isPathAllowed_try_def realpath_def example_env_def
          RepomixMCPServer_def example_resolve_src example_relative_src startsWith_def)
  have fail: "realpath_result ?bad (resolve ''/home/user/project'' ''missing'') = Inl (Error ''ENOENT'')"
    by simp
  from yes isPathAllowed_sound [of ?srv example_env "''src''" example_world]
  have "\<not> beginsWithParentSegment
         (relative ''/home/user/project'' ''/home/user/project'' ''/home/user/project/src'')"
    by (simp add: example_env_def RepomixMCPServer_def example_resolve_src)
  moreover from fail isPathAllowed_sound [of ?srv ?bad "''missing''" example_world]
  have "fst (isPathAllowed ?srv ?bad ''missing'' example_world) = Inr False"
    by (simp add: example_env_def)
  ultimately show ?thesis using yes fail by simp
qed

section \<open>The execution unit\<close>

lemma cleanup_trace [simp]: "trace (cleanup e p w) = trace w @ [Rm p]"
  by (simp add: cleanup_def rm_def called_def split: option.splits)

lemma cleanup_files_ok: "rm_failure e w p = None \<Longrightarrow> files (cleanup e p w) = (files w)(p := None)"
  by (simp add: cleanup_def rm_def called_def)

lemma cleanup_files_absent: "files w p = None \<Longrightarrow> files (cleanup e p w) p = None"
  by (simp add: cleanup_def rm_def called_def split: option.splits)

lemma cleanup_files_never_fails:
  "\<forall>w'. rm_failure e w' p = None \<Longrightarrow> files (cleanup e p w) p = None"
  by (simp add: cleanup_files_ok)

lemmas unit_defs =
  executeAndRetrieve_def outerCatch_def execAsync_def stat_def readFile_def called_def

lemma executeAndRetrieve_Inr: "\<exists>res. fst (executeAndRetrieve e args est w) = Inr res"
  by (auto simp add: unit_defs Let_def split: prod.splits sum.splits option.splits)

lemma executeAndRetrieve_trace:
  "\<exists>rest. trace (snd (executeAndRetrieve e args est w)) = trace w @ Exec (command e args) # rest
     \<and> rest \<in> {[Rm (tempFilePath e)],
                [Stat (tempFilePath e), Rm (tempFilePath e)],
                [Stat (tempFilePath e), Rm (tempFilePath e), Rm (tempFilePath e)],
                [ReadFile (tempFilePath e), Rm (tempFilePath e)]}"
  by (auto simp add: unit_defs Let_def split: prod.splits sum.splits option.splits)

lemma executeAndRetrieve_cleanup:
  "\<forall>w'. rm_failure e w' (tempFilePath e) = None \<Longrightarrow>
   files (snd (executeAndRetrieve e args est w)) (tempFilePath e) = None"
  by (auto simp add: unit_defs Let_def cleanup_files_never_fails cleanup_files_absent
           split: prod.splits sum.splits option.splits)

lemma tempFilePath_rm_failure [simp]: "tempFilePath (e\<lparr>rm_failure := f\<rparr>) = tempFilePath e"
  by (simp add: tempFilePath_def tempFileName_def)

lemma command_rm_failure [simp]: "command (e\<lparr>rm_failure := f\<rparr>) args = command e args"
  by (simp add: command_def)

lemma estimateText_rm_failure [simp]:
  "estimateText (e\<lparr>rm_failure := f\<rparr>) args n = estimateText e args n"
  by (simp add: estimateText_def)

lemma executeAndRetrieve_rm_failure:
  "fst (executeAndRetrieve (e\<lparr>rm_failure := f\<rparr>) args est w) = fst (executeAndRetrieve e args est w)"
  by (auto simp add: unit_defs Let_def split: prod.splits sum.splits option.splits)

lemma realpath_rm_failure [simp]: "realpath (e\<lparr>rm_failure := f\<rparr>) p w = realpath e p w"
  by (simp add: realpath_def)

lemma isPathAllowed_rm_failure [simp]:
  "isPathAllowed srv (e\<lparr>rm_failure := f\<rparr>) p w = isPathAllowed srv e p w"
  by (simp add: isPathAllowed_def isPathAllowed_try_def Let_def split: prod.splits sum.splits)

section \<open>The dispatcher\<close>

lemma handler_cases:
  obtains
    (unknown) "name request \<noteq> ''repomix''" "name request \<noteq> ''repomix-estimate''"
      "handler srv e request w = (Inl (Thrown (Error (''Unknown tool: '' @ name request))), w)"
  | (invalid) z where "name request = ''repomix'' \<or> name request = ''repomix-estimate''"
      "RepomixArgsSchema_parse (arguments request) = Inl z"
      "handler srv e request w = (Inl z, w)"
  | (denied) args p where "name request = ''repomix'' \<or> name request = ''repomix-estimate''"
      "RepomixArgsSchema_parse (arguments request) = Inr args"
      "path args = Some p" "p \<noteq> []" "\<not> truthy (remote args)"
      "fst (isPathAllowed srv e (resolve (cwd e) p) w) = Inr False"
      "handler srv e request w =
         (Inr (accessDenied srv p), snd (isPathAllowed srv e (resolve (cwd e) p) w))"
  | (guarded) args p where "name request = ''repomix'' \<or> name request = ''repomix-estimate''"
      "RepomixArgsSchema_parse (arguments request) = Inr args"
      "path args = Some p" "p \<noteq> []" "\<not> truthy (remote args)"
      "fst (isPathAllowed srv e (resolve (cwd e) p) w) = Inr True"
      "handler srv e request w =
         executeAndRetrieve e args (name request = ''repomix-estimate'')
           (snd (isPathAllowed srv e (resolve (cwd e) p) w))"
  | (unguarded) args where "name request = ''repomix'' \<or> name request = ''repomix-estimate''"
      "RepomixArgsSchema_parse (arguments request) = Inr args"
      "\<not> (truthy (path args) \<and> \<not> truthy (remote args))"
      "handler srv e request w = executeAndRetrieve e args (name request = ''repomix-estimate'') w"
proof (cases "name request \<noteq> ''repomix'' \<and> name request \<noteq> ''repomix-estimate''")
  case True
  then show ?thesis using unknown by (simp add: handler_def)
next
  case known: False
  show ?thesis
  proof (cases "RepomixArgsSchema_parse (arguments request)")
    case (Inl z)
    with known show ?thesis using invalid by (auto simp add: handler_def)
  next
    case (Inr args)
    show ?thesis
    proof (cases "truthy (path args) \<and> \<not> truthy (remote args)")
      case False
      with known Inr have "handler srv e request w =
          executeAndRetrieve e args (name request = ''repomix-estimate'') w"
        by (auto simp add: handler_def truthy_def Let_def split: option.splits)
      with known Inr False show ?thesis by (intro unguarded [of args]) auto
    next
      case True
      then obtain p where p: "path args = Some p" "p \<noteq> []"
        by (auto simp add: truthy_def split: option.splits)
      obtain b where b: "fst (isPathAllowed srv e (resolve (cwd e) p) w) = Inr b"
        using isPathAllowed_Inr by blast
      show ?thesis
      proof (cases b)
        case True
        with known Inr p b \<open>truthy (path args) \<and> \<not> truthy (remote args)\<close>
        have "handler srv e request w =
           executeAndRetrieve e args (name request = ''repomix-estimate'')
             (snd (isPathAllowed srv e (resolve (cwd e) p) w))"
          by (auto simp add: handler_def Let_def split: prod.splits)
        with known Inr p b True \<open>truthy (path args) \<and> \<not> truthy (remote args)\<close>
        show ?thesis by (intro guarded [of args p]) auto
      next
        case False
        with known Inr p b \<open>truthy (path args) \<and> \<not> truthy (remote args)\<close>
        have "handler srv e request w =
           (Inr (accessDenied srv p), snd (isPathAllowed srv e (resolve (cwd e) p) w))"
          by (auto simp add: handler_def Let_def split: prod.splits)
        with known Inr p b False \<open>truthy (path args) \<and> \<not> truthy (remote args)\<close>
        show ?thesis by (intro denied [of args p]) auto
      qed
    qed
  qed
qed

lemma handler_rm_failure:
  "fst (handler srv (e\<lparr>rm_failure := f\<rparr>) request w) = fst (handler srv e request w)"
  by (simp add: handler_def executeAndRetrieve_rm_failure Let_def
           split: sum.splits option.splits prod.splits)

lemma new_calls_append [simp]: "trace w' = trace w @ cs \<Longrightarrow> new_calls w w' = cs"
  by (simp add: new_calls_def)

lemma new_calls_same [simp]: "new_calls w w = []"
  by (simp add: new_calls_def)

lemma new_calls_guard:
  "new_calls w (snd (isPathAllowed srv e p w)) = [Realpath (resolve (cwd e) p)] \<or>
   new_calls w (snd (isPathAllowed srv e p w)) =
     [Realpath (resolve (cwd e) p), Realpath (allowedDirectory srv)]"
  using isPathAllowed_trace [of srv e p w] by auto

lemma new_calls_unit:
  "\<exists>rest. new_calls w (snd (executeAndRetrieve e args est w)) = Exec (command e args) # rest
     \<and> rest \<in> {[Rm (tempFilePath e)],
                [Stat (tempFilePath e), Rm (tempFilePath e)],
                [Stat (tempFilePath e), Rm (tempFilePath e), Rm (tempFilePath e)],
                [ReadFile (tempFilePath e), Rm (tempFilePath e)]}"
  using executeAndRetrieve_trace [of e args est w] by auto

lemma new_calls_guarded_unit:
  "\<exists>pre rest. new_calls w (snd (executeAndRetrieve e args est (snd (isPathAllowed srv e p w))))
       = pre @ Exec (command e args) # rest
     \<and> pre \<in> {[Realpath (resolve (cwd e) p)],
               [Realpath (resolve (cwd e) p), Realpath (allowedDirectory srv)]}
     \<and> rest \<in> {[Rm (tempFilePath e)],
                [Stat (tempFilePath e), Rm (tempFilePath e)],
                [Stat (tempFilePath e), Rm (tempFilePath e), Rm (tempFilePath e)],
                [ReadFile (tempFilePath e), Rm (tempFilePath e)]}"
proof -
  let ?w1 = "snd (isPathAllowed srv e p w)"
  obtain rest where r:
    "trace (snd (executeAndRetrieve e args est ?w1)) = trace ?w1 @ Exec (command e args) # rest"
    "rest \<in> {[Rm (tempFilePath e)],
                [Stat (tempFilePath e), Rm (tempFilePath e)],
                [Stat (tempFilePath e), Rm (tempFilePath e), Rm (tempFilePath e)],
                [ReadFile (tempFilePath e), Rm (tempFilePath e)]}"
    using executeAndRetrieve_trace [of e args est ?w1] by blast
  from isPathAllowed_trace [of srv e p w] show ?thesis
  proof
    assume "trace ?w1 = trace w @ [Realpath (resolve (cwd e) p)]"
    with r have "new_calls w (snd (executeAndRetrieve e args est ?w1))
       = [Realpath (resolve (cwd e) p)] @ Exec (command e args) # rest"
      by (simp add: new_calls_def)
    with r(2) show ?thesis by blast
  next
    assume "trace ?w1 = trace w @ [Realpath (resolve (cwd e) p), Realpath (allowedDirectory srv)]"
    with r have "new_calls w (snd (executeAndRetrieve e args est ?w1))
       = [Realpath (resolve (cwd e) p), Realpath (allowedDirectory srv)]
         @ Exec (command e args) # rest"
      by (simp add: new_calls_def)
    with r(2) show ?thesis by blast
  qed
qed

text \<open>
  C2. Whenever the handler launched the subprocess, it returns a result (it does not
  reject), the last system call it made is the deletion of the temporary file, the file is
  absent afterwards when deletion does not fail, and whether deletion fails or not has no
  influence on what is returned.
\<close>

theorem temp_file_always_cleaned:
  assumes run: "handler srv e request w = (r, w')"
      and reached: "\<exists>c. Exec c \<in> set (new_calls w w')"
  shows "(\<exists>res. r = Inr res)
       \<and> new_calls w w' \<noteq> [] \<and> last (new_calls w w') = Rm (tempFilePath e)
       \<and> ((\<forall>v. rm_failure e v (tempFilePath e) = None) \<longrightarrow> files w' (tempFilePath e) = None)
       \<and> (\<forall>f. fst (handler srv (e\<lparr>rm_failure := f\<rparr>) request w) = r)"
proof -
  have indep: "\<forall>f. fst (handler srv (e\<lparr>rm_failure := f\<rparr>) request w) = r"
    using run by (simp add: handler_rm_failure)
  show ?thesis
  proof (cases rule: handler_cases [of request srv e w])
    case unknown
    with run reached show ?thesis by auto
  next
    case (invalid z)
    with run reached show ?thesis by auto
  next
    case (denied args p)
    with run have "w' = snd (isPathAllowed srv e (resolve (cwd e) p) w)" by simp
    with reached new_calls_guard [of w srv e "resolve (cwd e) p"] show ?thesis by auto
  next
    case (guarded args p)
    let ?w1 = "snd (isPathAllowed srv e (resolve (cwd e) p) w)"
    let ?est = "name request = ''repomix-estimate''"
    from guarded run have eq: "executeAndRetrieve e args ?est ?w1 = (r, w')" by simp
    then have r: "r = fst (executeAndRetrieve e args ?est ?w1)"
      and w': "w' = snd (executeAndRetrieve e args ?est ?w1)" by simp_all
    from new_calls_guarded_unit [of w e args ?est srv "resolve (cwd e) p"] w'
    have "new_calls w w' \<noteq> [] \<and> last (new_calls w w') = Rm (tempFilePath e)" by auto
    moreover from executeAndRetrieve_Inr [of e args ?est ?w1] r have "\<exists>res. r = Inr res" by simp
    moreover from executeAndRetrieve_cleanup [of e args ?est ?w1] w'
    have "(\<forall>v. rm_failure e v (tempFilePath e) = None) \<longrightarrow> files w' (tempFilePath e) = None"
      by simp
    ultimately show ?thesis using indep by simp
  next
    case (unguarded args)
    let ?est = "name request = ''repomix-estimate''"
    from unguarded run have eq: "executeAndRetrieve e args ?est w = (r, w')" by simp
    then have r: "r = fst (executeAndRetrieve e args ?est w)"
      and w': "w' = snd (executeAndRetrieve e args ?est w)" by simp_all
    from new_calls_unit [of w e args ?est] w'
    have "new_calls w w' \<noteq> [] \<and> last (new_calls w w') = Rm (tempFilePath e)" by auto
    moreover from executeAndRetrieve_Inr [of e args ?est w] r have "\<exists>res. r = Inr res" by simp
    moreover from executeAndRetrieve_cleanup [of e args ?est w] w'
    have "(\<forall>v. rm_failure e v (tempFilePath e) = None) \<longrightarrow> files w' (tempFilePath e) = None"
      by simp
    ultimately show ?thesis using indep by simp
  qed
qed

section \<open>A sample run\<close>

lemmas parse_defs = RepomixArgsSchema_parse_def optionalString_def optionalStyle_def optionalBoolean_def

lemma example_parse:
  "RepomixArgsSchema_parse (arguments example_estimate_request) = Inr example_estimate_args"
  by (simp add: example_estimate_request_def example_estimate_args_def parse_defs)

lemma example_tempFilePath: "tempFilePath example_env = ''/tmp/repomix-1f8a03c45de6709b.txt''"
  by (simp add: tempFilePath_def tempFileName_def example_env_def toHex_def hexDigit_def
        join_def normalize_def normalizeString_def)

lemma example_command:
  "command example_env example_estimate_args
     = ''npx repomix . --compress --output /tmp/repomix-1f8a03c45de6709b.txt''"
  by (simp add: command_def commandParts_def example_tempFilePath example_estimate_args_def)

lemma example_resolve_dot: "resolve ''/home/user/project'' ''.'' = ''/home/user/project''"
  by (simp add: resolve_def normalizeString_def)

lemma example_resolve_cwd: "resolve ''/home/user/project'' ''/home/user/project'' = ''/home/user/project''"
  by (simp add: resolve_def normalizeString_def)

lemma example_guard_dot:
  "isPathAllowed (RepomixMCPServer example_env) example_env ''/home/user/project'' example_world
     = (Inr True, \<lparr>files = Map.empty,
                   trace = [Realpath ''/home/user/project'', Realpath ''/home/user/project'']\<rparr>)"
  by (simp add: isPathAllowed_def isPathAllowed_try_def realpath_def called_def
        RepomixMCPServer_def example_env_def example_world_def example_resolve_cwd
        relative_def startsWith_def)


lemma example_env_fields:
  "cwd example_env = ''/home/user/project''"
  "tmpdir example_env = ''/tmp''"
  "realpath_result example_env p = Inr p"
  "exec_result example_env c fs =
     (Inr \<lparr>stdout = [], stderr = []\<rparr>,
      fs(''/tmp/repomix-1f8a03c45de6709b.txt'' \<mapsto> replicate 5396 CHR ''x''))"
  "stat_failure example_env p = None"
  "readFile_failure example_env p = None"
  "rm_failure example_env w p = None"
  "toLocaleString example_env = toLocaleString_enUS"
  by (simp_all add: example_env_def)

lemma example_world_fields: "trace example_world = []" "files example_world = Map.empty"
  by (simp_all add: example_world_def)

lemma example_estimate_text:
  "estimateText example_env example_estimate_args 5396 =
    ''Repomix output size estimate:\<newline>- Size: 5.27 KB (0.01 MB)\<newline>- Estimated tokens: ~1,349\<newline>- Compression: enabled\<newline>\<newline>Use the repomix tool with these same parameters to retrieve the actual content.''"
  by (simp add: estimateText_def toFixed2_def Math_ceil_div_def digitChar_def example_env_fields
        example_estimate_args_def)

lemma example_estimate_run:
  "handler (RepomixMCPServer example_env) example_env example_estimate_request example_world =
     (Inr \<lparr>content = [TextContent (estimateText example_env example_estimate_args 5396)],
           isError = None\<rparr>,
      \<lparr>files = Map.empty,
       trace = [Realpath ''/home/user/project'', Realpath ''/home/user/project'',
                Exec ''npx repomix . --compress --output /tmp/repomix-1f8a03c45de6709b.txt'',
                Stat ''/tmp/repomix-1f8a03c45de6709b.txt'',
                Rm ''/tmp/repomix-1f8a03c45de6709b.txt'']\<rparr>)"
proof -
  have nm: "name example_estimate_request = ''repomix-estimate''"
    by (simp add: example_estimate_request_def)
  have pa: "path example_estimate_args = Some ''.''" "remote example_estimate_args = None"
    by (simp_all add: example_estimate_args_def)
  have unit: "executeAndRetrieve example_env example_estimate_args True
       \<lparr>files = Map.empty,
        trace = [Realpath ''/home/user/project'', Realpath ''/home/user/project'']\<rparr> =
     (Inr \<lparr>content = [TextContent (estimateText example_env example_estimate_args 5396)],
           isError = None\<rparr>,
      \<lparr>files = Map.empty,
       trace = [Realpath ''/home/user/project'', Realpath ''/home/user/project'',
                Exec ''npx repomix . --compress --output /tmp/repomix-1f8a03c45de6709b.txt'',
                Stat ''/tmp/repomix-1f8a03c45de6709b.txt'',
                Rm ''/tmp/repomix-1f8a03c45de6709b.txt'']\<rparr>)"
    by (simp add: executeAndRetrieve_def execAsync_def stat_def cleanup_def rm_def called_def
          example_command example_tempFilePath example_env_fields Let_def)
  show ?thesis
    by (simp add: handler_def nm example_parse pa truthy_def example_env_fields
          example_resolve_dot example_guard_dot unit)
qed

text \<open>The sample estimate request reaches the execution unit, and C2 applies to it.\<close>

theorem temp_file_always_cleaned_witness:
  "Exec ''npx repomix . --compress --output /tmp/repomix-1f8a03c45de6709b.txt''
     \<in> set (new_calls example_world
              (snd (handler (RepomixMCPServer example_env) example_env example_estimate_request
                      example_world)))
   \<and> last (new_calls example_world
              (snd (handler (RepomixMCPServer example_env) example_env example_estimate_request
                      example_world)))
       = Rm ''/tmp/repomix-1f8a03c45de6709b.txt''
   \<and> files (snd (handler (RepomixMCPServer example_env) example_env example_estimate_request
                    example_world)) ''/tmp/repomix-1f8a03c45de6709b.txt'' = None
   \<and> fst (handler (RepomixMCPServer example_env)
            (example_env\<lparr>rm_failure := \<lambda>w p. Some (Error ''EPERM'')\<rparr>)
            example_estimate_request example_world)
       = fst (handler (RepomixMCPServer example_env) example_env example_estimate_request
                example_world)"
proof -
  let ?h = "handler (RepomixMCPServer example_env) example_env example_estimate_request example_world"
  have run: "?h = (fst ?h, snd ?h)" by simp
  have calls: "new_calls example_world (snd ?h) =
      [Realpath ''/home/user/project'', Realpath ''/home/user/project'',
       Exec ''npx repomix . --compress --output /tmp/repomix-1f8a03c45de6709b.txt'',
       Stat ''/tmp/repomix-1f8a03c45de6709b.txt'',
       Rm ''/tmp/repomix-1f8a03c45de6709b.txt'']"
    by (simp add: example_estimate_run new_calls_def example_world_fields)
  then have reached: "\<exists>c. Exec c \<in> set (new_calls example_world (snd ?h))" by simp
  have never: "\<forall>v. rm_failure example_env v (tempFilePath example_env) = None"
    by (simp add: example_env_fields)
  from temp_file_always_cleaned [OF run reached] never calls
  show ?thesis by (simp add: example_tempFilePath)
qed

section \<open>Which requests meet the access guard\<close>

lemma executeAndRetrieve_not_denied:
  "fst (executeAndRetrieve e args est w) \<noteq> Inr (accessDenied srv p)"
  by (auto simp add: unit_defs accessDenied_def Let_def
           split: prod.splits sum.splits option.splits)

lemma accessDenied_text:
  "\<exists>t. content (accessDenied srv p) = [TextContent t] \<and> includes_str t p
       \<and> includes_str t (allowedDirectory srv)"
proof -
  let ?a = "''Access denied: Path '' @ [CHR 0x22]"
  let ?b = "[CHR 0x22] @ '' is outside the allowed directory (''"
  let ?t = "?a @ p @ ?b @ allowedDirectory srv @ '')''"
  have "content (accessDenied srv p) = [TextContent ?t]"
    by (simp add: accessDenied_def)
  moreover have "sublist p ?t"
    unfolding sublist_def by blast
  moreover have "?t = (?a @ p @ ?b) @ allowedDirectory srv @ '')''" by simp
  then have "sublist (allowedDirectory srv) ?t"
    unfolding sublist_def by blast
  ultimately show ?thesis unfolding includes_str_def by blast
qed

text \<open>
  C3, as the code has it. A field counts as present when it is a non-empty string. The guard
  runs exactly when the path is present and the remote reference is not. With a remote
  reference present the request goes straight to the execution unit and no access-denied
  result is returned. When the guard denies, the handler returns (it does not reject) the
  access-denied result, which is error-flagged and whose text contains the path as given and
  the boundary; no subprocess is launched and no file is touched.
\<close>

theorem guard_runs_iff_local_only:
  assumes known: "name request = ''repomix'' \<or> name request = ''repomix-estimate''"
      and parsed: "RepomixArgsSchema_parse (arguments request) = Inr args"
      and run: "handler srv e request w = (r, w')"
  shows "((\<exists>q. Realpath q \<in> set (new_calls w w')) \<longleftrightarrow> truthy (path args) \<and> \<not> truthy (remote args))
    \<and> (truthy (remote args) \<longrightarrow>
          (r, w') = executeAndRetrieve e args (name request = ''repomix-estimate'') w
          \<and> (\<forall>p. r \<noteq> Inr (accessDenied srv p)))
    \<and> (\<forall>p. path args = Some p \<and> p \<noteq> [] \<and> \<not> truthy (remote args)
             \<and> fst (isPathAllowed srv e (resolve (cwd e) p) w) = Inr False \<longrightarrow>
          r = Inr (accessDenied srv p) \<and> isError (accessDenied srv p) = Some True
          \<and> (\<exists>t. content (accessDenied srv p) = [TextContent t] \<and> includes_str t p
                  \<and> includes_str t (allowedDirectory srv))
          \<and> (\<forall>c. Exec c \<notin> set (new_calls w w')) \<and> files w' = files w)"
proof (cases rule: handler_cases [of request srv e w])
  case unknown
  with known show ?thesis by simp
next
  case (invalid z)
  with parsed show ?thesis by simp
next
  case (denied a p)
  with parsed have a: "a = args" by simp
  from denied run have r: "r = Inr (accessDenied srv p)"
    and w': "w' = snd (isPathAllowed srv e (resolve (cwd e) p) w)" by simp_all
  from denied a have g: "truthy (path args)" "\<not> truthy (remote args)" "path args = Some p"
    by (simp_all add: truthy_def)
  from w' new_calls_guard [of w srv e "resolve (cwd e) p"]
  have calls: "(\<exists>q. Realpath q \<in> set (new_calls w w'))" "\<forall>c. Exec c \<notin> set (new_calls w w')"
    by auto
  from w' have "files w' = files w" by (simp add: isPathAllowed_files)
  with calls g r accessDenied_text [of srv p] show ?thesis
    by (auto simp add: accessDenied_def)
next
  case (guarded a p)
  with parsed have a: "a = args" by simp
  let ?w1 = "snd (isPathAllowed srv e (resolve (cwd e) p) w)"
  let ?est = "name request = ''repomix-estimate''"
  from guarded a have g: "truthy (path args)" "\<not> truthy (remote args)" "path args = Some p"
    by (simp_all add: truthy_def)
  from guarded run a have "executeAndRetrieve e args ?est ?w1 = (r, w')" by simp
  then have "w' = snd (executeAndRetrieve e args ?est ?w1)" by simp
  with new_calls_guarded_unit [of w e args ?est srv "resolve (cwd e) p"]
  have "\<exists>q. Realpath q \<in> set (new_calls w w')" by auto
  with g guarded(6) show ?thesis by auto
next
  case (unguarded a)
  with parsed have a: "a = args" by simp
  let ?est = "name request = ''repomix-estimate''"
  from unguarded run a have eq': "executeAndRetrieve e args ?est w = (r, w')" by simp
  then have eq: "(r, w') = executeAndRetrieve e args ?est w" by simp
  from eq' have "w' = snd (executeAndRetrieve e args ?est w)"
    and r: "r = fst (executeAndRetrieve e args ?est w)"
    by simp_all
  with new_calls_unit [of w e args ?est]
  have "\<forall>q. Realpath q \<notin> set (new_calls w w')" by auto
  moreover from r have "\<forall>p. r \<noteq> Inr (accessDenied srv p)"
    by (simp add: executeAndRetrieve_not_denied)
  ultimately show ?thesis using unguarded(3) a eq by (auto simp add: truthy_def)
qed

lemma example_resolve_etc: "resolve ''/home/user/project'' ''/etc'' = ''/etc''"
  by (simp add: resolve_def normalizeString_def)

lemma example_relative_etc:
  "relative ''/home/user/project'' ''/home/user/project'' ''/etc'' = ''../../../etc''"
  by (simp add: relative_def resolve_def normalizeString_def Let_def relativeOut_def)

lemma example_guard_etc:
  "isPathAllowed (RepomixMCPServer example_env) example_env ''/etc'' example_world
     = (Inr False, \<lparr>files = Map.empty, trace = [Realpath ''/etc'', Realpath ''/home/user/project'']\<rparr>)"
  by (simp add: isPathAllowed_def isPathAllowed_try_def realpath_def called_def
        RepomixMCPServer_def example_env_fields example_world_def example_resolve_etc
        example_relative_etc startsWith_def)

lemma example_denied_parse:
  "RepomixArgsSchema_parse (arguments example_denied_request) = Inr example_denied_args"
  by (simp add: example_denied_request_def example_denied_args_def parse_defs)

lemma example_remote_parse:
  "RepomixArgsSchema_parse (arguments example_remote_request) = Inr example_remote_args"
  by (simp add: example_remote_request_def example_remote_args_def parse_defs)

lemma example_empty_remote_parse:
  "RepomixArgsSchema_parse (arguments example_empty_remote_request) = Inr example_empty_remote_args"
  by (simp add: example_empty_remote_request_def example_empty_remote_args_def parse_defs)

text \<open>
  A request for \<open>/etc\<close> is denied without any subprocess; the same path with a remote
  reference never meets the guard.
\<close>

theorem guard_runs_iff_local_only_witness:
  "fst (handler (RepomixMCPServer example_env) example_env example_denied_request example_world)
     = Inr (accessDenied (RepomixMCPServer example_env) ''/etc'')
   \<and> (\<forall>c. Exec c \<notin> set (new_calls example_world
         (snd (handler (RepomixMCPServer example_env) example_env example_denied_request
                 example_world))))
   \<and> truthy (remote example_remote_args)
   \<and> (\<forall>q. Realpath q \<notin> set (new_calls example_world
         (snd (handler (RepomixMCPServer example_env) example_env example_remote_request
                 example_world))))"
proof -
  let ?srv = "RepomixMCPServer example_env"
  let ?d = "handler ?srv example_env example_denied_request example_world"
  let ?r = "handler ?srv example_env example_remote_request example_world"
  have d1: "name example_denied_request = ''repomix'' \<or> name example_denied_request = ''repomix-estimate''"
    by (simp add: example_denied_request_def)
  have d3: "?d = (fst ?d, snd ?d)" by simp
  have dargs: "path example_denied_args = Some ''/etc''" "\<not> truthy (remote example_denied_args)"
    by (simp_all add: example_denied_args_def truthy_def)
  have dguard: "fst (isPathAllowed ?srv example_env (resolve (cwd example_env) ''/etc'') example_world)
      = Inr False"
    by (simp add: example_env_fields example_resolve_etc example_guard_etc)
  have r1: "name example_remote_request = ''repomix'' \<or> name example_remote_request = ''repomix-estimate''"
    by (simp add: example_remote_request_def)
  have r3: "?r = (fst ?r, snd ?r)" by simp
  have rargs: "truthy (remote example_remote_args)"
    by (simp add: example_remote_args_def truthy_def)
  from guard_runs_iff_local_only [OF d1 example_denied_parse d3] dargs dguard
  have "fst ?d = Inr (accessDenied ?srv ''/etc'')
        \<and> (\<forall>c. Exec c \<notin> set (new_calls example_world (snd ?d)))"
    by simp
  moreover from guard_runs_iff_local_only [OF r1 example_remote_parse r3] rargs
  have "\<forall>q. Realpath q \<notin> set (new_calls example_world (snd ?r))"
    by blast
  ultimately show ?thesis using rargs by simp
qed

text \<open>
  C3 as stated fails where the remote reference is supplied as the empty string: path and
  remote are both supplied, yet the guard runs and the request is denied.
\<close>

theorem empty_remote_still_guarded:
  "RepomixArgsSchema_parse (arguments example_empty_remote_request) = Inr example_empty_remote_args
   \<and> path example_empty_remote_args = Some ''/etc''
   \<and> remote example_empty_remote_args = Some []
   \<and> handler (RepomixMCPServer example_env) example_env example_empty_remote_request example_world
       = (Inr (accessDenied (RepomixMCPServer example_env) ''/etc''),
          \<lparr>files = Map.empty, trace = [Realpath ''/etc'', Realpath ''/home/user/project'']\<rparr>)"
proof -
  have nm: "name example_empty_remote_request = ''repomix''"
    by (simp add: example_empty_remote_request_def)
  have pa: "path example_empty_remote_args = Some ''/etc''"
    "remote example_empty_remote_args = Some []"
    by (simp_all add: example_empty_remote_args_def)
  have "handler (RepomixMCPServer example_env) example_env example_empty_remote_request example_world
       = (Inr (accessDenied (RepomixMCPServer example_env) ''/etc''),
          \<lparr>files = Map.empty, trace = [Realpath ''/etc'', Realpath ''/home/user/project'']\<rparr>)"
    by (simp add: handler_def nm example_empty_remote_parse pa truthy_def example_env_fields
          example_resolve_etc example_guard_etc)
  with pa example_empty_remote_parse show ?thesis by simp
qed

section \<open>Unknown operations\<close>

lemma executeAndRetrieve_not_Inl: "fst (executeAndRetrieve e args est w) \<noteq> Inl x"
  using executeAndRetrieve_Inr [of e args est w] by auto

text \<open>
  C7, as the code has it. The two advertised operations are \<open>repomix\<close> and
  \<open>repomix-estimate\<close>. A call naming anything else is rejected with the unknown-tool error
  whatever its arguments, and the world is left as it was; a call naming one of the two is
  never rejected with a thrown error.
\<close>

theorem unknown_tool_rejected:
  "map tool_name listTools = [''repomix'', ''repomix-estimate'']
   \<and> (name request \<notin> set (map tool_name listTools) \<longrightarrow>
        handler srv e request w = (Inl (Thrown (Error (''Unknown tool: '' @ name request))), w))
   \<and> (name request \<in> set (map tool_name listTools) \<longrightarrow>
        (\<forall>err. fst (handler srv e request w) \<noteq> Inl (Thrown err)))"
proof (intro conjI impI)
  show names: "map tool_name listTools = [''repomix'', ''repomix-estimate'']"
    by (simp add: listTools_def)
  {
    assume "name request \<notin> set (map tool_name listTools)"
    with names show "handler srv e request w
        = (Inl (Thrown (Error (''Unknown tool: '' @ name request))), w)"
      by (simp add: handler_def)
  }
  {
    assume k: "name request \<in> set (map tool_name listTools)"
    show "\<forall>err. fst (handler srv e request w) \<noteq> Inl (Thrown err)"
    proof (cases rule: handler_cases [of request srv e w])
      case unknown
      with k names show ?thesis by simp
    next
      case (invalid z)
      then show ?thesis
        by (auto simp add: RepomixArgsSchema_parse_def Let_def
                 split: option.splits json.splits if_splits)
    next
      case (denied args p)
      then show ?thesis by simp
    next
      case (guarded args p)
      then show ?thesis by (simp add: executeAndRetrieve_not_Inl)
    next
      case (unguarded args)
      then show ?thesis by (simp add: executeAndRetrieve_not_Inl)
    qed
  }
qed

text \<open>
  The names \<open>pack\<close> and \<open>pack-estimate\<close> are not the advertised ones: a call to
  \<open>pack\<close> is rejected as unknown.
\<close>

theorem pack_is_not_advertised:
  "''pack'' \<notin> set (map tool_name listTools)
   \<and> ''pack-estimate'' \<notin> set (map tool_name listTools)
   \<and> handler (RepomixMCPServer example_env) example_env
        \<lparr>name = ''pack'', arguments = Some (JObj [(''path'', JStr ''.'')])\<rparr> example_world
       = (Inl (Thrown (Error ''Unknown tool: pack'')), example_world)"
  by (simp add: listTools_def handler_def)

theorem unknown_tool_rejected_witness:
  "''repomix'' \<in> set (map tool_name listTools)
   \<and> fst (handler (RepomixMCPServer example_env) example_env example_denied_request example_world)
       \<noteq> Inl (Thrown (Error ''Unknown tool: repomix''))
   \<and> ''delete'' \<notin> set (map tool_name listTools)
   \<and> handler (RepomixMCPServer example_env) example_env
        \<lparr>name = ''delete'', arguments = Some (JNum 7)\<rparr> example_world
       = (Inl (Thrown (Error ''Unknown tool: delete'')), example_world)"
proof -
  let ?srv = "RepomixMCPServer example_env"
  let ?del = "\<lparr>name = ''delete'', arguments = Some (JNum 7)\<rparr>"
  have a: "''repomix'' \<in> set (map tool_name listTools)"
    and b: "''delete'' \<notin> set (map tool_name listTools)"
    by (simp_all add: listTools_def)
  have n: "name example_denied_request = ''repomix''"
    by (simp add: example_denied_request_def)
  from a n have k: "name example_denied_request \<in> set (map tool_name listTools)"
    by simp
  from b have k2: "name ?del \<notin> set (map tool_name listTools)"
    by simp
  from k unknown_tool_rejected [of example_denied_request ?srv example_env example_world]
  have first: "fst (handler ?srv example_env example_denied_request example_world)
       \<noteq> Inl (Thrown (Error ''Unknown tool: repomix''))"
    by blast
  from k2 unknown_tool_rejected [of ?del ?srv example_env example_world]
  have "handler ?srv example_env ?del example_world
       = (Inl (Thrown (Error (''Unknown tool: '' @ name ?del))), example_world)"
    by blast
  then have second: "handler ?srv example_env ?del example_world
       = (Inl (Thrown (Error ''Unknown tool: delete'')), example_world)"
    by simp
  from a b first second show ?thesis by blast
qed

section \<open>The size estimate\<close>

lemma Math_ceil_div_4: "Math_ceil_div n 4 = spec_tokens n"
proof -
  have "\<lceil>real n / 4\<rceil> = \<lceil>real_of_int (int n) / real_of_int 4\<rceil>" by simp
  also have "\<dots> = - (- int n div 4)" by (rule ceiling_divide_eq_div)
  also have "\<dots> = (int n + 3) div 4" by presburger
  finally have "nat \<lceil>real n / 4\<rceil> = nat ((int n + 3) div 4)" by simp
  also have "\<dots> = (n + 3) div 4" by (simp add: nat_div_distrib nat_add_distrib)
  finally show ?thesis by (simp add: Math_ceil_div_def spec_tokens_def)
qed

lemma round_hundredths:
  assumes "0 < d"
  shows "(200 * n + d) div (2 * d) = spec_hundredths n d"
proof -
  have "100 * (real n / real d) + 1 / 2 = real (200 * n + d) / real (2 * d)"
    using assms by (simp add: field_simps)
  then have "round (100 * (real n / real d)) = \<lfloor>real (200 * n + d) / real (2 * d)\<rfloor>"
    by (simp add: round_def)
  also have "\<dots> = int ((200 * n + d) div (2 * d))"
    by (rule floor_divide_of_nat_eq)
  finally show ?thesis by (simp add: spec_hundredths_def)
qed

lemma toFixed2_hundredths: "0 < d \<Longrightarrow> toFixed2 n d = show_hundredths (spec_hundredths n d)"
  by (simp add: toFixed2_def show_hundredths_def round_hundredths Let_def)

lemma estimateText_spec:
  "estimateText e args n = spec_estimate_text (toLocaleString e) n (compress args = Some True)"
  by (simp add: estimateText_def spec_estimate_text_def toFixed2_hundredths Math_ceil_div_4)

lemma estimate_success:
  assumes "exec_result e (command e args) (files w) = (Inr out, fs)"
      and "stat_failure e (tempFilePath e) = None"
      and "fs (tempFilePath e) = Some artifact"
  shows "fst (executeAndRetrieve e args True w) =
           Inr \<lparr>content = [TextContent (estimateText e args (length artifact))], isError = None\<rparr>"
  using assms by (simp add: unit_defs Let_def)

lemma spec_text_5396:
  "spec_estimate_text locale 5396 True =
     ''Repomix output size estimate:\<newline>- Size: 5.27 KB (0.01 MB)\<newline>- Estimated tokens: ~''
     @ locale 1349
     @ ''\<newline>- Compression: enabled\<newline>\<newline>Use the repomix tool with these same parameters to retrieve the actual content.''"
  by (simp add: spec_estimate_text_def spec_hundredths_def spec_tokens_def round_def
        show_hundredths_def digitChar_def)

lemma spec_text_5396_fragments:
  "includes_str (spec_estimate_text locale 5396 True) ''Size: 5.27 KB (0.01 MB)''"
  "includes_str (spec_estimate_text locale 5396 True) (''Estimated tokens: ~'' @ locale 1349)"
  "includes_str (spec_estimate_text locale 5396 True) ''Compression: enabled''"
proof -
  let ?rest = "''\<newline>- Compression: enabled\<newline>\<newline>Use the repomix tool with these same parameters to retrieve the actual content.''"
  have "spec_estimate_text locale 5396 True =
      ''Repomix output size estimate:\<newline>- '' @ ''Size: 5.27 KB (0.01 MB)''
      @ (''\<newline>- Estimated tokens: ~'' @ locale 1349 @ ?rest)"
    by (simp add: spec_text_5396)
  then show "includes_str (spec_estimate_text locale 5396 True) ''Size: 5.27 KB (0.01 MB)''"
    unfolding includes_str_def sublist_def by blast
  have "spec_estimate_text locale 5396 True =
      ''Repomix output size estimate:\<newline>- Size: 5.27 KB (0.01 MB)\<newline>- ''
      @ (''Estimated tokens: ~'' @ locale 1349) @ ?rest"
    by (simp add: spec_text_5396)
  then show "includes_str (spec_estimate_text locale 5396 True) (''Estimated tokens: ~'' @ locale 1349)"
    unfolding includes_str_def sublist_def by blast
  have "spec_estimate_text locale 5396 True =
      (''Repomix output size estimate:\<newline>- Size: 5.27 KB (0.01 MB)\<newline>- Estimated tokens: ~''
       @ locale 1349 @ ''\<newline>- '') @ ''Compression: enabled''
      @ ''\<newline>\<newline>Use the repomix tool with these same parameters to retrieve the actual content.''"
    by (simp add: spec_text_5396)
  then show "includes_str (spec_estimate_text locale 5396 True) ''Compression: enabled''"
    unfolding includes_str_def sublist_def by blast
qed

text \<open>
  C4, as the code has it. In estimate mode, when the tool ran and the artifact can be
  statted, the result is the summary in which the token count is the ceiling of a quarter of
  the byte size, written as the host's locale writes numbers, the two size figures are the
  size over 1024 and over 1048576 rounded to hundredths, and the compression line follows the
  \<open>compress\<close> argument of the request. For 5396 bytes with compression requested the text
  contains \<open>Size: 5.27 KB (0.01 MB)\<close>, \<open>Compression: enabled\<close> and
  \<open>Estimated tokens: ~\<close> followed by the locale's writing of 1349; that is
  \<open>Estimated tokens: ~1,349\<close> where the locale writes 1349 as \<open>1,349\<close>.
\<close>

theorem estimate_figures:
  assumes "exec_result e (command e args) (files w) = (Inr out, fs)"
      and "stat_failure e (tempFilePath e) = None"
      and "fs (tempFilePath e) = Some artifact"
  shows "fst (executeAndRetrieve e args True w) =
           Inr \<lparr>content = [TextContent (spec_estimate_text (toLocaleString e) (length artifact)
                                           (compress args = Some True))],
                isError = None\<rparr>
       \<and> (length artifact = 5396 \<and> compress args = Some True \<longrightarrow>
            includes_str (spec_estimate_text (toLocaleString e) (length artifact)
                            (compress args = Some True)) ''Size: 5.27 KB (0.01 MB)''
            \<and> includes_str (spec_estimate_text (toLocaleString e) (length artifact)
                              (compress args = Some True))
                 (''Estimated tokens: ~'' @ toLocaleString e 1349)
            \<and> includes_str (spec_estimate_text (toLocaleString e) (length artifact)
                              (compress args = Some True)) ''Compression: enabled''
            \<and> (toLocaleString e 1349 = ''1,349'' \<longrightarrow>
                 includes_str (spec_estimate_text (toLocaleString e) (length artifact)
                                 (compress args = Some True)) ''Estimated tokens: ~1,349''))"
proof (intro conjI impI)
  show "fst (executeAndRetrieve e args True w) =
           Inr \<lparr>content = [TextContent (spec_estimate_text (toLocaleString e) (length artifact)
                                           (compress args = Some True))],
                isError = None\<rparr>"
    using estimate_success [OF assms] by (simp add: estimateText_spec)
next
  assume "length artifact = 5396 \<and> compress args = Some True"
  then show "includes_str (spec_estimate_text (toLocaleString e) (length artifact)
                            (compress args = Some True)) ''Size: 5.27 KB (0.01 MB)''"
    by (simp add: spec_text_5396_fragments(1))
next
  assume "length artifact = 5396 \<and> compress args = Some True"
  then show "includes_str (spec_estimate_text (toLocaleString e) (length artifact)
                              (compress args = Some True))
                 (''Estimated tokens: ~'' @ toLocaleString e 1349)"
    using spec_text_5396_fragments(2) [of "toLocaleString e"] by simp
next
  assume "length artifact = 5396 \<and> compress args = Some True"
  then show "includes_str (spec_estimate_text (toLocaleString e) (length artifact)
                              (compress args = Some True)) ''Compression: enabled''"
    by (simp add: spec_text_5396_fragments(3))
next
  assume "length artifact = 5396 \<and> compress args = Some True"
    and "toLocaleString e 1349 = ''1,349''"
  then show "includes_str (spec_estimate_text (toLocaleString e) (length artifact)
                                 (compress args = Some True)) ''Estimated tokens: ~1,349''"
    using spec_text_5396_fragments(2) [of "toLocaleString e"] by simp
qed


text \<open>The scenario of the specification: 5396 bytes, compression requested, US English locale.\<close>

theorem estimate_figures_witness:
  "fst (executeAndRetrieve example_env example_estimate_args True example_world) =
     Inr \<lparr>content = [TextContent
       ''Repomix output size estimate:\<newline>- Size: 5.27 KB (0.01 MB)\<newline>- Estimated tokens: ~1,349\<newline>- Compression: enabled\<newline>\<newline>Use the repomix tool with these same parameters to retrieve the actual content.''],
          isError = None\<rparr>
   \<and> toLocaleString example_env 1349 = ''1,349''
   \<and> includes_str
       ''Repomix output size estimate:\<newline>- Size: 5.27 KB (0.01 MB)\<newline>- Estimated tokens: ~1,349\<newline>- Compression: enabled\<newline>\<newline>Use the repomix tool with these same parameters to retrieve the actual content.''
       ''Size: 5.27 KB (0.01 MB)''
   \<and> includes_str
       ''Repomix output size estimate:\<newline>- Size: 5.27 KB (0.01 MB)\<newline>- Estimated tokens: ~1,349\<newline>- Compression: enabled\<newline>\<newline>Use the repomix tool with these same parameters to retrieve the actual content.''
       ''Estimated tokens: ~1,349''
   \<and> includes_str
       ''Repomix output size estimate:\<newline>- Size: 5.27 KB (0.01 MB)\<newline>- Estimated tokens: ~1,349\<newline>- Compression: enabled\<newline>\<newline>Use the repomix tool with these same parameters to retrieve the actual content.''
       ''Compression: enabled''"
proof -
  let ?spec = "spec_estimate_text (toLocaleString example_env) (length (replicate 5396 CHR ''x''))
       (compress example_estimate_args = Some True)"
  have ran: "exec_result example_env (command example_env example_estimate_args) (files example_world)
      = (Inr \<lparr>stdout = [], stderr = []\<rparr>,
         (files example_world)(''/tmp/repomix-1f8a03c45de6709b.txt'' \<mapsto> replicate 5396 CHR ''x''))"
    by (simp add: example_env_fields)
  have ok: "stat_failure example_env (tempFilePath example_env) = None"
    by (simp add: example_env_fields)
  have art: "((files example_world)(''/tmp/repomix-1f8a03c45de6709b.txt'' \<mapsto> replicate 5396 CHR ''x''))
      (tempFilePath example_env) = Some (replicate 5396 CHR ''x'')"
    by (simp add: example_tempFilePath)
  have scenario: "length (replicate 5396 CHR ''x'') = 5396
      \<and> compress example_estimate_args = Some True"
    by (simp add: example_estimate_args_def)
  have us: "toLocaleString example_env 1349 = ''1,349''"
    by (simp add: example_env_fields digitChar_def)
  have summary: "?spec =
     ''Repomix output size estimate:\<newline>- Size: 5.27 KB (0.01 MB)\<newline>- Estimated tokens: ~1,349\<newline>- Compression: enabled\<newline>\<newline>Use the repomix tool with these same parameters to retrieve the actual content.''"
    by (simp add: spec_estimate_text_def spec_hundredths_def spec_tokens_def round_def
          show_hundredths_def digitChar_def example_env_fields example_estimate_args_def)
  note inst = estimate_figures [OF ran ok art]
  from inst have result: "fst (executeAndRetrieve example_env example_estimate_args True example_world)
      = Inr \<lparr>content = [TextContent ?spec], isError = None\<rparr>"
    by (rule conjunct1)
  from inst have "length (replicate 5396 CHR ''x'') = 5396
      \<and> compress example_estimate_args = Some True \<longrightarrow>
        includes_str ?spec ''Size: 5.27 KB (0.01 MB)''
        \<and> includes_str ?spec (''Estimated tokens: ~'' @ toLocaleString example_env 1349)
        \<and> includes_str ?spec ''Compression: enabled''
        \<and> (toLocaleString example_env 1349 = ''1,349'' \<longrightarrow>
             includes_str ?spec ''Estimated tokens: ~1,349'')"
    by (rule conjunct2)
  with scenario us have found: "includes_str ?spec ''Size: 5.27 KB (0.01 MB)''"
    "includes_str ?spec ''Estimated tokens: ~1,349''"
    "includes_str ?spec ''Compression: enabled''"
    by blast+
  from result found us show ?thesis
    by (simp only: summary)
qed

lemma example_german_fields:
  "exec_result example_german_env c fs =
     (Inr \<lparr>stdout = [], stderr = []\<rparr>,
      fs(''/tmp/repomix-1f8a03c45de6709b.txt'' \<mapsto> replicate 5396 CHR ''x''))"
  "stat_failure example_german_env p = None"
  "toLocaleString example_german_env = toLocaleString_deDE"
  "tempFilePath example_german_env = ''/tmp/repomix-1f8a03c45de6709b.txt''"
  using example_tempFilePath
  by (simp_all add: example_german_env_def example_env_fields tempFilePath_def tempFileName_def)

text \<open>
  C4 as stated fails for the token line where the host's locale is not US English: the
  source calls \<open>toLocaleString()\<close> without naming a locale, and under German grouping the
  same request on the same 5396 bytes yields \<open>~1.349\<close>.
\<close>

theorem estimate_tokens_follow_locale:
  "fst (executeAndRetrieve example_german_env example_estimate_args True example_world) =
     Inr \<lparr>content = [TextContent
       ''Repomix output size estimate:\<newline>- Size: 5.27 KB (0.01 MB)\<newline>- Estimated tokens: ~1.349\<newline>- Compression: enabled\<newline>\<newline>Use the repomix tool with these same parameters to retrieve the actual content.''],
          isError = None\<rparr>
   \<and> \<not> includes_str
       ''Repomix output size estimate:\<newline>- Size: 5.27 KB (0.01 MB)\<newline>- Estimated tokens: ~1.349\<newline>- Compression: enabled\<newline>\<newline>Use the repomix tool with these same parameters to retrieve the actual content.''
       ''Estimated tokens: ~1,349''"
proof -
  have ran: "exec_result example_german_env (command example_german_env example_estimate_args)
        (files example_world)
      = (Inr \<lparr>stdout = [], stderr = []\<rparr>,
         (files example_world)(''/tmp/repomix-1f8a03c45de6709b.txt'' \<mapsto> replicate 5396 CHR ''x''))"
    by (simp add: example_german_fields)
  have ok: "stat_failure example_german_env (tempFilePath example_german_env) = None"
    by (simp add: example_german_fields)
  have art: "((files example_world)(''/tmp/repomix-1f8a03c45de6709b.txt'' \<mapsto> replicate 5396 CHR ''x''))
      (tempFilePath example_german_env) = Some (replicate 5396 CHR ''x'')"
    by (simp add: example_german_fields)
  have summary: "estimateText example_german_env example_estimate_args
        (length (replicate 5396 CHR ''x'')) =
     ''Repomix output size estimate:\<newline>- Size: 5.27 KB (0.01 MB)\<newline>- Estimated tokens: ~1.349\<newline>- Compression: enabled\<newline>\<newline>Use the repomix tool with these same parameters to retrieve the actual content.''"
    by (simp add: estimateText_def toFixed2_def Math_ceil_div_def digitChar_def
          example_german_fields example_estimate_args_def)
  have absent: "\<not> includes_str
       ''Repomix output size estimate:\<newline>- Size: 5.27 KB (0.01 MB)\<newline>- Estimated tokens: ~1.349\<newline>- Compression: enabled\<newline>\<newline>Use the repomix tool with these same parameters to retrieve the actual content.''
       ''Estimated tokens: ~1,349''"
    unfolding includes_str_def by (simp add: sublist_Cons_right)
  from estimate_success [OF ran ok art] summary absent show ?thesis by simp
qed

text \<open>
  C8. Two successful estimates whose artifacts have the same number of bytes, under requests
  with the same \<open>compress\<close> argument and the same locale, return the same result: nothing
  of the artifact but its size reaches the text.
\<close>

theorem estimate_reveals_size_only:
  assumes "exec_result e1 (command e1 args1) (files w1) = (Inr out1, fs1)"
      and "stat_failure e1 (tempFilePath e1) = None"
      and "fs1 (tempFilePath e1) = Some artifact1"
      and "exec_result e2 (command e2 args2) (files w2) = (Inr out2, fs2)"
      and "stat_failure e2 (tempFilePath e2) = None"
      and "fs2 (tempFilePath e2) = Some artifact2"
      and "length artifact1 = length artifact2"
      and "compress args1 = compress args2"
      and "toLocaleString e1 = toLocaleString e2"
  shows "fst (executeAndRetrieve e1 args1 True w1) = fst (executeAndRetrieve e2 args2 True w2)"
  using estimate_success [OF assms(1-3)] estimate_success [OF assms(4-6)] assms(7-9)
  by (simp add: estimateText_def)

theorem estimate_reveals_size_only_witness:
  "''alpha'' \<noteq> ''omega''
   \<and> fst (executeAndRetrieve
           (example_env\<lparr>exec_result := \<lambda>c fs. (Inr \<lparr>stdout = [], stderr = []\<rparr>,
               fs(''/tmp/repomix-1f8a03c45de6709b.txt'' \<mapsto> ''alpha''))\<rparr>)
           example_estimate_args True example_world)
     = fst (executeAndRetrieve
           (example_env\<lparr>exec_result := \<lambda>c fs. (Inr \<lparr>stdout = [], stderr = []\<rparr>,
               fs(''/tmp/repomix-1f8a03c45de6709b.txt'' \<mapsto> ''omega''))\<rparr>)
           example_estimate_args True example_world)"
proof -
  let ?tmp = "''/tmp/repomix-1f8a03c45de6709b.txt''"
  let ?e1 = "example_env\<lparr>exec_result := \<lambda>c fs. (Inr \<lparr>stdout = [], stderr = []\<rparr>,
               fs(?tmp \<mapsto> ''alpha''))\<rparr>"
  let ?e2 = "example_env\<lparr>exec_result := \<lambda>c fs. (Inr \<lparr>stdout = [], stderr = []\<rparr>,
               fs(?tmp \<mapsto> ''omega''))\<rparr>"
  have t1: "tempFilePath ?e1 = ?tmp" and t2: "tempFilePath ?e2 = ?tmp"
    using example_tempFilePath by (simp_all add: tempFilePath_def tempFileName_def)
  have a1: "exec_result ?e1 (command ?e1 example_estimate_args) (files example_world)
      = (Inr \<lparr>stdout = [], stderr = []\<rparr>, (files example_world)(?tmp \<mapsto> ''alpha''))"
    by simp
  have a2: "stat_failure ?e1 (tempFilePath ?e1) = None" by (simp add: example_env_fields)
  have a3: "((files example_world)(?tmp \<mapsto> ''alpha'')) (tempFilePath ?e1) = Some ''alpha''"
    by (simp add: t1)
  have b1: "exec_result ?e2 (command ?e2 example_estimate_args) (files example_world)
      = (Inr \<lparr>stdout = [], stderr = []\<rparr>, (files example_world)(?tmp \<mapsto> ''omega''))"
    by simp
  have b2: "stat_failure ?e2 (tempFilePath ?e2) = None" by (simp add: example_env_fields)
  have b3: "((files example_world)(?tmp \<mapsto> ''omega'')) (tempFilePath ?e2) = Some ''omega''"
    by (simp add: t2)
  have "fst (executeAndRetrieve ?e1 example_estimate_args True example_world)
      = fst (executeAndRetrieve ?e2 example_estimate_args True example_world)"
    by (rule estimate_reveals_size_only [OF a1 a2 a3 b1 b2 b3]) simp_all
  then show ?thesis by simp
qed

section \<open>Standard error of a failed run\<close>

lemma example_pack_parse:
  "RepomixArgsSchema_parse (arguments example_pack_request) = Inr example_pack_args"
  by (simp add: example_pack_request_def example_pack_args_def parse_defs)

lemma example_failing_tempFilePath:
  "tempFilePath example_failing_env = ''/tmp/repomix-1f8a03c45de6709b.txt''"
  using example_tempFilePath
  by (simp add: tempFilePath_def tempFileName_def example_failing_env_def)

lemma example_pack_command:
  "command example_failing_env example_pack_args
     = ''npx repomix . --output /tmp/repomix-1f8a03c45de6709b.txt''"
  by (simp add: command_def commandParts_def example_failing_tempFilePath example_pack_args_def)

lemma example_failing_guard:
  "isPathAllowed (RepomixMCPServer example_failing_env) example_failing_env
       ''/home/user/project'' example_world
     = (Inr True, \<lparr>files = Map.empty,
                   trace = [Realpath ''/home/user/project'', Realpath ''/home/user/project'']\<rparr>)"
  by (simp add: isPathAllowed_def isPathAllowed_try_def realpath_def called_def
        RepomixMCPServer_def example_failing_env_def example_env_fields example_world_def
        example_resolve_cwd relative_def startsWith_def)

text \<open>
  C6 at the scenario of the specification. The tool exits non-zero with \<open>glob error\<close> on
  standard error. The result is error-flagged and begins with \<open>Error executing repomix:\<close>,
  but the variable \<open>stderr\<close> is still empty when the outer handler runs, so the text has
  no \<open>Stderr: glob error\<close>.
\<close>

theorem failed_run_omits_stderr_label:
  "fst (handler (RepomixMCPServer example_failing_env) example_failing_env example_pack_request
          example_world)
     = Inr \<lparr>content = [TextContent
         ''Error executing repomix: Command failed: npx repomix . --output /tmp/repomix-1f8a03c45de6709b.txt\<newline>glob error''],
            isError = Some True\<rparr>
   \<and> includes_str
        ''Error executing repomix: Command failed: npx repomix . --output /tmp/repomix-1f8a03c45de6709b.txt\<newline>glob error''
        ''Error executing repomix:''
   \<and> \<not> includes_str
        ''Error executing repomix: Command failed: npx repomix . --output /tmp/repomix-1f8a03c45de6709b.txt\<newline>glob error''
        ''Stderr: glob error''"
proof -
  have nm: "name example_pack_request = ''repomix''"
    by (simp add: example_pack_request_def)
  have pa: "path example_pack_args = Some ''.''" "remote example_pack_args = None"
    by (simp_all add: example_pack_args_def)
  have env: "cwd example_failing_env = ''/home/user/project''"
    "exec_result example_failing_env c fs
       = (Inl (Error (''Command failed: '' @ c @ ''\<newline>'' @ ''glob error'')), fs)"
    "rm_failure example_failing_env w p = None" for c fs w p
    by (simp_all add: example_failing_env_def example_env_fields)
  have unit: "fst (executeAndRetrieve example_failing_env example_pack_args False
       \<lparr>files = Map.empty,
        trace = [Realpath ''/home/user/project'', Realpath ''/home/user/project'']\<rparr>) =
     Inr \<lparr>content = [TextContent
         ''Error executing repomix: Command failed: npx repomix . --output /tmp/repomix-1f8a03c45de6709b.txt\<newline>glob error''],
            isError = Some True\<rparr>"
    by (simp add: executeAndRetrieve_def execAsync_def outerCatch_def withStderr_def
          example_pack_command example_failing_tempFilePath env Let_def)
  have "fst (handler (RepomixMCPServer example_failing_env) example_failing_env
          example_pack_request example_world)
     = Inr \<lparr>content = [TextContent
         ''Error executing repomix: Command failed: npx repomix . --output /tmp/repomix-1f8a03c45de6709b.txt\<newline>glob error''],
            isError = Some True\<rparr>"
    by (simp add: handler_def nm example_pack_parse pa truthy_def env
          example_resolve_dot example_failing_guard unit)
  moreover have "includes_str
        ''Error executing repomix: Command failed: npx repomix . --output /tmp/repomix-1f8a03c45de6709b.txt\<newline>glob error''
        ''Error executing repomix:''"
    and "\<not> includes_str
        ''Error executing repomix: Command failed: npx repomix . --output /tmp/repomix-1f8a03c45de6709b.txt\<newline>glob error''
        ''Stderr: glob error''"
    unfolding includes_str_def by (simp_all add: sublist_Cons_right)
  ultimately show ?thesis by blast
qed

section \<open>Paths made of clean segments\<close>

lemma split_on_none: "c \<notin> set a \<Longrightarrow> split_on c a = [a]"
  by (induction a) auto

lemma split_on_append: "c \<notin> set a \<Longrightarrow> split_on c (a @ c # b) = a # split_on c b"
  by (induction a) auto

lemma join_with_snoc: "segs \<noteq> [] \<Longrightarrow> join_with sep (segs @ [n]) = join_with sep segs @ sep @ n"
  by (induction sep segs rule: join_with.induct) auto

lemma split_on_join_append:
  "segs \<noteq> [] \<Longrightarrow> \<forall>s\<in>set segs. c \<notin> set s \<Longrightarrow>
   split_on c (join_with [c] segs @ c # b) = segs @ split_on c b"
proof (induction "[c]" segs rule: join_with.induct)
  case 1
  then show ?case by simp
next
  case (2 x)
  then show ?case by (simp add: split_on_append)
next
  case (3 x y ys)
  then show ?case by (simp add: split_on_append)
qed

lemma split_on_join:
  "segs \<noteq> [] \<Longrightarrow> \<forall>s\<in>set segs. c \<notin> set s \<Longrightarrow> split_on c (join_with [c] segs) = segs"
proof (induction "[c]" segs rule: join_with.induct)
  case 1
  then show ?case by simp
next
  case (2 x)
  then show ?case by (simp add: split_on_none)
next
  case (3 x y ys)
  then show ?case by (simp add: split_on_append)
qed

lemma normalizeSegs_clean:
  "\<forall>s\<in>set segs. cleanSegment s \<Longrightarrow>
   normalizeSegs up acc (segs @ rest) = normalizeSegs up (rev segs @ acc) rest"
  by (induction segs arbitrary: acc) (auto simp add: cleanSegment_def)

lemma normalizeString_abs:
  assumes "segs \<noteq> []" "\<forall>s\<in>set segs. cleanSegment s"
  shows "normalizeString (absPath segs @ ''/'') False = join_with ''/'' segs"
    and "normalizeString (absPath segs) False = join_with ''/'' segs"
proof -
  from assms have nosl: "\<forall>s\<in>set segs. CHR ''/'' \<notin> set s" by (simp add: cleanSegment_def)
  have "split_on CHR ''/'' (absPath segs @ ''/'') = [] # segs @ [[]]"
    using split_on_join_append [OF assms(1) nosl, of "[]"] by (simp add: absPath_def)
  moreover have "normalizeSegs False [] (segs @ [[]]) = segs"
    using normalizeSegs_clean [OF assms(2), of False "[]" "[[]]"] by simp
  ultimately show "normalizeString (absPath segs @ ''/'') False = join_with ''/'' segs"
    by (simp add: normalizeString_def)
  have "split_on CHR ''/'' (absPath segs) = [] # segs"
    using split_on_join [OF assms(1) nosl] by (simp add: absPath_def)
  moreover have "normalizeSegs False [] segs = segs"
    using normalizeSegs_clean [OF assms(2), of False "[]" "[]"] by simp
  ultimately show "normalizeString (absPath segs) False = join_with ''/'' segs"
    by (simp add: normalizeString_def)
qed

lemma resolve_absPath:
  assumes "segs \<noteq> []" "\<forall>s\<in>set segs. cleanSegment s"
  shows "resolve d (absPath segs) = absPath segs"
proof -
  have "absPath segs \<noteq> []" "hd (absPath segs) = CHR ''/''" by (simp_all add: absPath_def)
  then show ?thesis
    using normalizeString_abs(1) [OF assms]
    by (simp add: resolve_def) (simp add: absPath_def)
qed

lemma absPath_snoc: "segs \<noteq> [] \<Longrightarrow> absPath (segs @ [n]) = absPath segs @ ''/'' @ n"
  by (simp add: absPath_def join_with_snoc)

lemma commonScan_same: "fst (commonScan xs xs i s) = i + length xs"
  by (induction xs arbitrary: i s) auto

lemma relative_child:
  assumes "segs \<noteq> []" "\<forall>s\<in>set segs. cleanSegment s" "cleanSegment n"
  shows "relative d (absPath segs) (absPath (segs @ [n])) = n"
proof -
  let ?from = "absPath segs" and ?to = "absPath (segs @ [n])"
  let ?J = "join_with ''/'' segs"
  have tt: "?to = ?from @ ''/'' @ n" using assms(1) by (rule absPath_snoc)
  have fr: "?from = CHR ''/'' # ?J" by (simp add: absPath_def)
  have ne: "?from \<noteq> ?to" using tt by simp
  have clean': "\<forall>s\<in>set (segs @ [n]). cleanSegment s" using assms by simp
  have rf: "resolve d ?from = ?from" using assms(1,2) by (rule resolve_absPath)
  have rt: "resolve d ?to = ?to" using clean' by (intro resolve_absPath) simp_all
  have n: "n \<noteq> []" using assms(3) by (simp add: cleanSegment_def)
  have lens: "length ?from - 1 = length ?J" "length ?to - 1 = length ?J + 1 + length n"
    by (simp_all add: tt fr)
  then have lt: "length ?from - 1 < length ?to - 1" by simp
  have tk: "take (length ?J) (drop 1 ?from) = ?J" "take (length ?J) (drop 1 ?to) = ?J"
    by (simp_all add: tt fr)
  obtain i s where scan: "commonScan ?J ?J 0 (- 1) = (i, s)" by fastforce
  with commonScan_same [of ?J 0 "- 1"] have i: "i = length ?J" by simp
  have slash: "?to ! (1 + length ?J) = CHR ''/''"
    by (simp add: tt fr nth_append)
  have rest: "drop (1 + length ?J + 1) ?to = n"
    by (simp add: tt fr)
  show ?thesis
    using ne lt n slash rest
    by (simp add: relative_def rf rt lens tk scan i Let_def del: One_nat_def)
qed


section \<open>Names that begin with two dots\<close>

text \<open>
  C9. Let the boundary resolve to a directory and the candidate to an entry directly under
  it whose name begins with two dots without being \<open>..\<close> itself. The relative path is
  that name, which is no parent-directory segment, and yet \<open>isPathAllowed\<close> answers false.
\<close>

theorem dotted_name_inside_boundary_denied:
  assumes "segs \<noteq> []" "\<forall>s\<in>set segs. cleanSegment s"
      and "cleanSegment n" "startsWith n ''..''"
      and "realpath_result e (allowedDirectory srv) = Inr (absPath segs)"
      and "realpath_result e (resolve (cwd e) p) = Inr (absPath segs @ ''/'' @ n)"
  shows "relative (cwd e) (absPath segs) (absPath segs @ ''/'' @ n) = n
       \<and> \<not> beginsWithParentSegment n
       \<and> fst (isPathAllowed srv e p w) = Inr False"
proof -
  have rel: "relative (cwd e) (absPath segs) (absPath segs @ ''/'' @ n) = n"
    using relative_child [OF assms(1-3), of "cwd e"] assms(1) by (simp add: absPath_snoc)
  from assms(3) have "split_on CHR ''/'' n = [n]" "n \<noteq> ''..''"
    by (simp_all add: cleanSegment_def split_on_none)
  then have inside: "\<not> beginsWithParentSegment n"
    by (simp add: beginsWithParentSegment_def)
  from assms(4-6) rel have "fst (isPathAllowed srv e p w) = Inr False"
    by (simp add: isPathAllowed_def isPathAllowed_try_def realpath_def Let_def)
  with rel inside show ?thesis by simp
qed

lemma example_resolve_cache:
  "resolve ''/home/user/project'' ''..cache'' = ''/home/user/project/..cache''"
  by (simp add: resolve_def normalizeString_def)

text \<open>A directory \<open>..cache\<close> in the project directory is inside the boundary and is refused.\<close>

theorem dotted_name_inside_boundary_denied_witness:
  "relative ''/home/user/project'' ''/home/user/project'' ''/home/user/project/..cache'' = ''..cache''
   \<and> \<not> beginsWithParentSegment ''..cache''
   \<and> fst (isPathAllowed (RepomixMCPServer example_env) example_env ''..cache'' example_world)
       = Inr False"
proof -
  let ?segs = "[''home'', ''user'', ''project'']"
  have a1: "?segs \<noteq> []" by simp
  have a2: "\<forall>s\<in>set ?segs. cleanSegment s" by (simp add: cleanSegment_def)
  have a3: "cleanSegment ''..cache''" by (simp add: cleanSegment_def)
  have a4: "startsWith ''..cache'' ''..''" by (simp add: startsWith_def)
  have abs: "absPath ?segs = ''/home/user/project''" by (simp add: absPath_def)
  have a5: "realpath_result example_env (allowedDirectory (RepomixMCPServer example_env))
      = Inr (absPath ?segs)"
    by (simp add: abs example_env_fields RepomixMCPServer_def)
  have a6: "realpath_result example_env (resolve (cwd example_env) ''..cache'')
      = Inr (absPath ?segs @ ''/'' @ ''..cache'')"
    by (simp add: abs example_env_fields example_resolve_cache)
  from dotted_name_inside_boundary_denied [OF a1 a2 a3 a4 a5 a6, of example_world]
  show ?thesis by (simp add: abs example_env_fields)
qed

section \<open>The command line and the shell\<close>









lemma commandParts_render: "commandParts args tmp = map render (parts_of args tmp)"
  by (simp add: commandParts_def parts_of_def split: option.splits)






section \<open>The temporary file\<close>


























section \<open>A path with a blank\<close>

lemma example_space_parse:
  "RepomixArgsSchema_parse (arguments example_space_request) = Inr example_space_args"
  by (simp add: example_space_request_def example_space_args_def parse_defs)

lemma example_resolve_space:
  "resolve ''/home/user/project'' ''my dir'' = ''/home/user/project/my dir''"
  "resolve ''/home/user/project'' ''/home/user/project/my dir'' = ''/home/user/project/my dir''"
  by (simp_all add: resolve_def normalizeString_def)

lemma example_relative_space:
  "relative ''/home/user/project'' ''/home/user/project'' ''/home/user/project/my dir'' = ''my dir''"
  by (simp add: relative_def resolve_def normalizeString_def Let_def)

lemma example_guard_space:
  "isPathAllowed (RepomixMCPServer example_env) example_env ''/home/user/project/my dir''
       example_world
     = (Inr True, \<lparr>files = Map.empty,
                   trace = [Realpath ''/home/user/project/my dir'',
                            Realpath ''/home/user/project'']\<rparr>)"
  by (simp add: isPathAllowed_def isPathAllowed_try_def realpath_def called_def
        RepomixMCPServer_def example_env_fields example_world_def example_resolve_space
        example_relative_space startsWith_def)

lemma example_space_command:
  "command example_env example_space_args
     = ''npx repomix my dir --output /tmp/repomix-1f8a03c45de6709b.txt''"
  by (simp add: command_def commandParts_def example_tempFilePath example_space_args_def)

text \<open>
  C10. The command is the parts joined by single blanks; the path, style and remote values
  are parts as they are, the include and ignore values between double quotes. For the
  directory \<open>my dir\<close> of the sample installation the guard agrees, the command is run, and
  the shell hands the tool \<open>my\<close> and \<open>dir\<close> as two arguments: \<open>my dir\<close> is not among
  the words.
\<close>

theorem path_with_blank_is_split:
  "command e args = join_with '' '' (commandParts args (tempFilePath e))
   \<and> commandParts args tmp = map render (parts_of args tmp)
   \<and> path example_space_args = Some ''my dir''
   \<and> RepomixArgsSchema_parse (arguments example_space_request) = Inr example_space_args
   \<and> trace (snd (handler (RepomixMCPServer example_env) example_env example_space_request
                    example_world))
       = [Realpath ''/home/user/project/my dir'', Realpath ''/home/user/project'',
          Exec ''npx repomix my dir --output /tmp/repomix-1f8a03c45de6709b.txt'',
          ReadFile ''/tmp/repomix-1f8a03c45de6709b.txt'',
          Rm ''/tmp/repomix-1f8a03c45de6709b.txt'']
   \<and> sh_words ''npx repomix my dir --output /tmp/repomix-1f8a03c45de6709b.txt''
       = [''npx'', ''repomix'', ''my'', ''dir'', ''--output'',
          ''/tmp/repomix-1f8a03c45de6709b.txt'']
   \<and> ''my dir'' \<notin> set (sh_words ''npx repomix my dir --output /tmp/repomix-1f8a03c45de6709b.txt'')"
proof -
  have nm: "name example_space_request = ''repomix''"
    by (simp add: example_space_request_def)
  have pa: "path example_space_args = Some ''my dir''" "remote example_space_args = None"
    by (simp_all add: example_space_args_def)
  have unit: "trace (snd (executeAndRetrieve example_env example_space_args False
       \<lparr>files = Map.empty,
        trace = [Realpath ''/home/user/project/my dir'', Realpath ''/home/user/project'']\<rparr>))
     = [Realpath ''/home/user/project/my dir'', Realpath ''/home/user/project'',
        Exec ''npx repomix my dir --output /tmp/repomix-1f8a03c45de6709b.txt'',
        ReadFile ''/tmp/repomix-1f8a03c45de6709b.txt'',
        Rm ''/tmp/repomix-1f8a03c45de6709b.txt'']"
    by (simp add: executeAndRetrieve_def execAsync_def readFile_def called_def
          example_space_command example_tempFilePath example_env_fields Let_def)
  have run: "trace (snd (handler (RepomixMCPServer example_env) example_env example_space_request
                    example_world))
       = [Realpath ''/home/user/project/my dir'', Realpath ''/home/user/project'',
          Exec ''npx repomix my dir --output /tmp/repomix-1f8a03c45de6709b.txt'',
          ReadFile ''/tmp/repomix-1f8a03c45de6709b.txt'',
          Rm ''/tmp/repomix-1f8a03c45de6709b.txt'']"
    by (simp add: handler_def nm example_space_parse pa truthy_def example_env_fields
          example_resolve_space example_guard_space unit)
  have words: "sh_words ''npx repomix my dir --output /tmp/repomix-1f8a03c45de6709b.txt''
       = [''npx'', ''repomix'', ''my'', ''dir'', ''--output'',
          ''/tmp/repomix-1f8a03c45de6709b.txt'']"
    by (simp add: sh_words_def sh_word_def)
  have absent: "''my dir'' \<notin> set [''npx'', ''repomix'', ''my'', ''dir'', ''--output'',
          ''/tmp/repomix-1f8a03c45de6709b.txt'']"
    by simp
  show ?thesis
    apply (intro conjI)
          apply (simp add: command_def)
         apply (rule commandParts_render)
        apply (rule pa(1))
       apply (rule example_space_parse)
      apply (rule run)
     apply (rule words)
    apply (simp only: words)
    apply (rule absent)
    done
qed

end
